theory Spec2Isabelle
  imports Main "HOL-Library.Log_Nat" "HOL-Library.AList"
begin

section \<open>JavaScript values\<close>

text \<open>
  The server actions receive form entries, hand them to the Zod schema and multiply
  the validated amount by 100. The values involved are JavaScript values, so the
  embedding starts with the part of the language the source relies on: numbers
  (IEEE-754 doubles), the conversion \<^verbatim>\<open>Number(x)\<close> behind \<^verbatim>\<open>z.coerce.number()\<close>,
  and \<^verbatim>\<open>typeof\<close>.

  A double is \<open>NaN\<close>, an infinity, or a finite value. A finite value is kept as the
  rational number it denotes; every arithmetic result is rounded to the nearest double
  (ties to even) by \<open>round_double\<close>. The sign of zero is not kept: no operation of the
  source observes it.
\<close>

datatype jsnum = NaN | PosInf | NegInf | Fin rat

definition ilog2 :: "rat \<Rightarrow> int" where
  \<comment> \<open>the binary exponent of a positive rational \<open>q\<close>:
      \<open>2 powi (ilog2 q) \<le> q < 2 powi (ilog2 q + 1)\<close>\<close>
  "ilog2 q = (case quotient_of q of (a, b) \<Rightarrow>
     (let d = bitlen a - bitlen b in if 2 powi d \<le> q then d else d - 1))"

definition round_half_even :: "rat \<Rightarrow> int" where
  "round_half_even q = (let f = \<lfloor>q\<rfloor>; r = q - of_int f in
     if r < 1 / 2 then f
     else if 1 / 2 < r then f + 1
     else if even f then f else f + 1)"

definition round_double :: "rat \<Rightarrow> jsnum" where
  \<comment> \<open>binary64: 53 significant bits, least normal exponent -1022, overflow at \<open>2^1024\<close>\<close>
  "round_double q = (if q = 0 then Fin 0 else
     (let m = \<bar>q\<bar>;
          e = max (ilog2 m) (- 1022);
          ulp = 2 powi (e - 52);
          v = of_int (round_half_even (m / ulp)) * ulp
      in if 2 powi 1024 \<le> v then (if 0 < q then PosInf else NegInf)
         else Fin (if 0 < q then v else - v)))"

fun js_sign :: "jsnum \<Rightarrow> int" where
  "js_sign NaN = 0"
| "js_sign PosInf = 1"
| "js_sign NegInf = - 1"
| "js_sign (Fin q) = (if q < 0 then - 1 else if q = 0 then 0 else 1)"

fun js_mul :: "jsnum \<Rightarrow> jsnum \<Rightarrow> jsnum" where
  "js_mul NaN y = NaN"
| "js_mul x NaN = NaN"
| "js_mul (Fin a) (Fin b) = round_double (a * b)"
| "js_mul x y = (let s = js_sign x * js_sign y in
     if s = 0 then NaN else if 0 < s then PosInf else NegInf)"

fun js_le :: "jsnum \<Rightarrow> jsnum \<Rightarrow> bool" where
  "js_le NaN y = False"
| "js_le x NaN = False"
| "js_le NegInf y = True"
| "js_le x PosInf = True"
| "js_le PosInf y = False"
| "js_le x NegInf = False"
| "js_le (Fin a) (Fin b) = (a \<le> b)"

definition js_lt :: "jsnum \<Rightarrow> jsnum \<Rightarrow> bool" where
  "js_lt x y = (js_le x y \<and> x \<noteq> y)"

subsection \<open>\<^verbatim>\<open>Number(string)\<close>\<close>

text \<open>
  \<^verbatim>\<open>StringToNumber\<close> of ECMA-262: surrounding white space is dropped, the empty
  string is \<open>0\<close>, a binary, octal or hexadecimal literal carries no sign, a decimal
  literal may carry one, and anything else is \<open>NaN\<close>. A string is a list of code
  units below 256, so the white space of the model is TAB, LF, VT, FF, CR, SP and NBSP.
\<close>

definition isStrWhiteSpaceChar :: "char \<Rightarrow> bool" where
  "isStrWhiteSpaceChar c = ((of_char c :: nat) \<in> set [9, 10, 11, 12, 13, 32, 160])"

definition trimString :: "string \<Rightarrow> string" where
  "trimString s = rev (dropWhile isStrWhiteSpaceChar (rev (dropWhile isStrWhiteSpaceChar s)))"

definition digit_val :: "char \<Rightarrow> nat option" where
  "digit_val c = (let n = (of_char c :: nat) in
     if 48 \<le> n \<and> n \<le> 57 then Some (n - 48)
     else if 97 \<le> n \<and> n \<le> 102 then Some (n - 87)
     else if 65 \<le> n \<and> n \<le> 70 then Some (n - 55)
     else None)"

definition is_digit :: "nat \<Rightarrow> char \<Rightarrow> bool" where
  "is_digit base c = (case digit_val c of Some d \<Rightarrow> d < base | None \<Rightarrow> False)"

definition digits_value :: "nat \<Rightarrow> string \<Rightarrow> nat" where
  "digits_value base ds =
     foldl (\<lambda>acc c. acc * base + (case digit_val c of Some d \<Rightarrow> d | None \<Rightarrow> 0)) 0 ds"

definition NonDecimalIntegerLiteral :: "string \<Rightarrow> nat option" where
  "NonDecimalIntegerLiteral s = (case s of
       c0 # p # ds \<Rightarrow>
         (let base = (if p = CHR ''x'' \<or> p = CHR ''X'' then 16
                      else if p = CHR ''o'' \<or> p = CHR ''O'' then 8
                      else if p = CHR ''b'' \<or> p = CHR ''B'' then 2 else (0::nat))
          in if c0 = CHR ''0'' \<and> base \<noteq> 0 \<and> ds \<noteq> [] \<and> list_all (is_digit base) ds
             then Some (digits_value base ds) else None)
     | _ \<Rightarrow> None)"

definition ExponentPart :: "string \<Rightarrow> int option" where
  \<comment> \<open>what follows the mantissa: nothing, or \<open>e\<close>/\<open>E\<close>, an optional sign and digits\<close>
  "ExponentPart s = (case s of
       [] \<Rightarrow> Some 0
     | c # t \<Rightarrow>
         if c = CHR ''e'' \<or> c = CHR ''E'' then
           (let (neg, ds) = (case t of
                  s1 # t1 \<Rightarrow> if s1 = CHR ''-'' then (True, t1)
                             else if s1 = CHR ''+'' then (False, t1) else (False, t)
                | [] \<Rightarrow> (False, t))
            in if ds \<noteq> [] \<and> list_all (is_digit 10) ds
               then Some (if neg then - int (digits_value 10 ds) else int (digits_value 10 ds))
               else None)
         else None)"

datatype numeric_literal = NotNumeric | PlusInfinity | MinusInfinity | MV rat

definition StrUnsignedDecimalLiteral :: "string \<Rightarrow> numeric_literal" where
  "StrUnsignedDecimalLiteral s =
     (if s = ''Infinity'' then PlusInfinity
      else
        (let ip = takeWhile (is_digit 10) s;
             r1 = dropWhile (is_digit 10) s;
             (fp, r2) = (case r1 of
                  c # t \<Rightarrow> if c = CHR ''.'' then (takeWhile (is_digit 10) t, dropWhile (is_digit 10) t)
                           else ([], r1)
                | [] \<Rightarrow> ([], r1))
         in if ip = [] \<and> fp = [] then NotNumeric
            else (case ExponentPart r2 of
                    None \<Rightarrow> NotNumeric
                  | Some e \<Rightarrow>
                      MV (of_int (int (digits_value 10 (ip @ fp))) * 10 powi (e - int (length fp))))))"

fun negated :: "numeric_literal \<Rightarrow> numeric_literal" where
  "negated NotNumeric = NotNumeric"
| "negated PlusInfinity = MinusInfinity"
| "negated MinusInfinity = PlusInfinity"
| "negated (MV q) = MV (- q)"

definition StringNumericLiteral :: "string \<Rightarrow> numeric_literal" where
  \<comment> \<open>the mathematical value of the string read as a numeric literal\<close>
  "StringNumericLiteral str = (let s = trimString str in
     if s = [] then MV 0
     else (case NonDecimalIntegerLiteral s of
             Some n \<Rightarrow> MV (of_int (int n))
           | None \<Rightarrow>
               (case s of
                  c # t \<Rightarrow>
                    if c = CHR ''+'' then StrUnsignedDecimalLiteral t
                    else if c = CHR ''-'' then negated (StrUnsignedDecimalLiteral t)
                    else StrUnsignedDecimalLiteral s
                | [] \<Rightarrow> MV 0)))"

fun RoundMVResult :: "numeric_literal \<Rightarrow> jsnum" where
  "RoundMVResult NotNumeric = NaN"
| "RoundMVResult PlusInfinity = PosInf"
| "RoundMVResult MinusInfinity = NegInf"
| "RoundMVResult (MV q) = round_double q"

definition StringToNumber :: "string \<Rightarrow> jsnum" where
  "StringToNumber str = RoundMVResult (StringNumericLiteral str)"

subsection \<open>Values, \<^verbatim>\<open>typeof\<close> and \<^verbatim>\<open>Number(x)\<close>\<close>

text \<open>
  The values a form entry or a validated field can be: \<^verbatim>\<open>FormData.get\<close> returns a
  string, a \<^verbatim>\<open>File\<close> or \<^verbatim>\<open>null\<close>; a property that an object lacks reads as
  \<^verbatim>\<open>undefined\<close>; the coerced amount is a number.
\<close>

datatype js_value = Undefined | Null | Str string | Num jsnum | FileObj

type_synonym js_object = "(string \<times> js_value) list"

definition obj_get :: "js_object \<Rightarrow> string \<Rightarrow> js_value" where
  "obj_get obj key = (case map_of obj key of None \<Rightarrow> Undefined | Some v \<Rightarrow> v)"

definition Number :: "js_value \<Rightarrow> jsnum" where
  "Number v = (case v of
       Undefined \<Rightarrow> NaN
     | Null \<Rightarrow> Fin 0
     | Str s \<Rightarrow> StringToNumber s
     | Num n \<Rightarrow> n
     | FileObj \<Rightarrow> StringToNumber ''[object File]'')"

definition startsWith :: "string \<Rightarrow> string \<Rightarrow> bool" where
  "startsWith s p = (take (length p) s = p)"

definition split_first :: "char \<Rightarrow> string \<Rightarrow> string" where
  \<comment> \<open>\<^verbatim>\<open>s.split(c)[0]\<close>\<close>
  "split_first c s = takeWhile (\<lambda>x. x \<noteq> c) s"

definition nullish :: "'a option \<Rightarrow> 'a \<Rightarrow> 'a" where
  \<comment> \<open>\<^verbatim>\<open>a ?? b\<close>\<close>
  "nullish a b = (case a of Some x \<Rightarrow> x | None \<Rightarrow> b)"

datatype FormDataEntryValue = EntryString string | EntryFile

type_synonym FormData = "(string \<times> FormDataEntryValue) list"

definition formData_get :: "FormData \<Rightarrow> string \<Rightarrow> js_value" where
  "formData_get formData name = (case map_of formData name of
       None \<Rightarrow> Null
     | Some (EntryString s) \<Rightarrow> Str s
     | Some EntryFile \<Rightarrow> FileObj)"

section \<open>The Zod schema combinators the source uses\<close>

text \<open>
  \<^verbatim>\<open>formSchema\<close> is built from \<^verbatim>\<open>z.object\<close>, \<^verbatim>\<open>z.string\<close>,
  \<^verbatim>\<open>z.coerce.number().gt\<close>, \<^verbatim>\<open>z.enum\<close> and \<^verbatim>\<open>omit\<close>, and read with
  \<^verbatim>\<open>safeParse\<close> and \<^verbatim>\<open>error.flatten().fieldErrors\<close>. Zod is a library, not
  part of the repository; the definitions below follow its version 3 (the version that
  has the \<^verbatim>\<open>invalid_type_error\<close> parameter): the parse functions of
  \<^verbatim>\<open>ZodString\<close>, \<^verbatim>\<open>ZodNumber\<close>, \<^verbatim>\<open>ZodEnum\<close> and \<^verbatim>\<open>ZodObject\<close>, the
  error map that \<^verbatim>\<open>processCreateParams\<close> builds from the parameters, and the
  default English messages. The number schema of the source is created without message
  parameters, so its issues carry the default messages, and its one check,
  \<^verbatim>\<open>gt\<close>, carries the message the source passes.
\<close>

datatype ZodParsedType = T_string | T_nan | T_number | T_undefined | T_null | T_object

definition getParsedType :: "js_value \<Rightarrow> ZodParsedType" where
  "getParsedType v = (case v of
       Undefined \<Rightarrow> T_undefined
     | Null \<Rightarrow> T_null
     | Str s \<Rightarrow> T_string
     | Num n \<Rightarrow> (if n = NaN then T_nan else T_number)
     | FileObj \<Rightarrow> T_object)"

fun parsedTypeName :: "ZodParsedType \<Rightarrow> string" where
  "parsedTypeName T_string = ''string''"
| "parsedTypeName T_nan = ''nan''"
| "parsedTypeName T_number = ''number''"
| "parsedTypeName T_undefined = ''undefined''"
| "parsedTypeName T_null = ''null''"
| "parsedTypeName T_object = ''object''"

datatype ZodIssueCode = invalid_type | invalid_enum_value | too_small

datatype ZodIssue =
  ZodIssue (issue_code: ZodIssueCode) (issue_path: "string list") (issue_message: string)

record RawCreateParams =
  message_param :: "string option"
  invalid_type_error :: "string option"
  required_error :: "string option"

definition quoted :: "string \<Rightarrow> string" where
  "quoted v = [CHR 0x27] @ v @ [CHR 0x27]"

fun joinValues :: "string list \<Rightarrow> string" where
  "joinValues [] = []"
| "joinValues [v] = quoted v"
| "joinValues (v # vs) = quoted v @ '' | '' @ joinValues vs"

definition invalid_type_default :: "string \<Rightarrow> ZodParsedType \<Rightarrow> string" where
  "invalid_type_default expected received =
     (if received = T_undefined then ''Required''
      else ''Expected '' @ expected @ '', received '' @ parsedTypeName received)"

definition invalid_enum_value_default :: "string list \<Rightarrow> string \<Rightarrow> string" where
  "invalid_enum_value_default options received =
     ''Invalid enum value. Expected '' @ joinValues options @ '', received '' @ quoted received"

definition customMap :: "RawCreateParams option \<Rightarrow> ZodIssueCode \<Rightarrow> js_value \<Rightarrow> string \<Rightarrow> string" where
  \<comment> \<open>the schema's error map; \<open>defaultError\<close> is the message of the default map\<close>
  "customMap params code data defaultError = (case params of
       None \<Rightarrow> defaultError
     | Some ps \<Rightarrow>
         if code = invalid_enum_value then nullish (message_param ps) defaultError
         else if data = Undefined
           then nullish (message_param ps) (nullish (required_error ps) defaultError)
         else if code \<noteq> invalid_type then defaultError
         else nullish (message_param ps) (nullish (invalid_type_error ps) defaultError))"

datatype ZodNumberCheck =
  Min (check_value: jsnum) (check_inclusive: bool) (check_message: string)

datatype ZodType =
    ZodString "RawCreateParams option"
  | ZodNumber bool "ZodNumberCheck list"
  | ZodEnum "string list" "RawCreateParams option"

definition z_string :: "RawCreateParams option \<Rightarrow> ZodType" where
  "z_string params = ZodString params"

definition z_coerce_number :: ZodType where
  "z_coerce_number = ZodNumber True []"

definition z_enum :: "string list \<Rightarrow> RawCreateParams option \<Rightarrow> ZodType" where
  "z_enum vals params = ZodEnum vals params"

fun gt :: "jsnum \<Rightarrow> string \<Rightarrow> ZodType \<Rightarrow> ZodType" where
  \<comment> \<open>\<^verbatim>\<open>schema.gt(value, {message})\<close>: a \<open>min\<close> check that is not inclusive\<close>
  "gt v msg (ZodNumber coerce checks) = ZodNumber coerce (checks @ [Min v False msg])"
| "gt v msg t = t"

datatype ParseReturn = INVALID | DIRTY js_value | VALID js_value

definition run_check :: "string list \<Rightarrow> jsnum \<Rightarrow> ZodNumberCheck \<Rightarrow> ZodIssue list" where
  "run_check path n check =
     (let tooSmall = (if check_inclusive check then js_lt n (check_value check)
                      else js_le n (check_value check))
      in if tooSmall then [ZodIssue too_small path (check_message check)] else [])"

fun parse_type :: "ZodType \<Rightarrow> string list \<Rightarrow> js_value \<Rightarrow> ParseReturn \<times> ZodIssue list" where
  "parse_type (ZodString params) path data =
     (if getParsedType data \<noteq> T_string
      then (INVALID, [ZodIssue invalid_type path
              (customMap params invalid_type data
                 (invalid_type_default ''string'' (getParsedType data)))])
      else (VALID data, []))"
| "parse_type (ZodNumber coerce checks) path data =
     (let input = (if coerce then Num (Number data) else data)
      in (case input of
            Num n \<Rightarrow>
              if n = NaN
              then (INVALID, [ZodIssue invalid_type path
                      (invalid_type_default ''number'' (getParsedType input))])
              else (let issues = concat (map (run_check path n) checks)
                    in (if issues = [] then VALID input else DIRTY input, issues))
          | _ \<Rightarrow> (INVALID, [ZodIssue invalid_type path
                      (invalid_type_default ''number'' (getParsedType input))])))"
| "parse_type (ZodEnum vals params) path data =
     (case data of
        Str s \<Rightarrow>
          if s \<in> set vals then (VALID data, [])
          else (INVALID, [ZodIssue invalid_enum_value path
                  (customMap params invalid_enum_value data (invalid_enum_value_default vals s))])
      | _ \<Rightarrow> (INVALID, [ZodIssue invalid_type path
                  (customMap params invalid_type data
                     (invalid_type_default (joinValues vals) (getParsedType data)))]))"

type_synonym ZodRawShape = "(string \<times> ZodType) list"

definition omit :: "string list \<Rightarrow> ZodRawShape \<Rightarrow> ZodRawShape" where
  \<comment> \<open>\<^verbatim>\<open>schema.omit({k: true, ...})\<close>: the shape without the masked keys\<close>
  "omit masked shape = filter (\<lambda>(key, t). key \<notin> set masked) shape"

datatype SafeParseReturn = SafeParseSuccess js_object | SafeParseError "ZodIssue list"

definition parse_pairs :: "ZodRawShape \<Rightarrow> js_object \<Rightarrow> (string \<times> ParseReturn \<times> ZodIssue list) list" where
  \<comment> \<open>every key of the shape is parsed, in the order of the shape, whatever the others gave\<close>
  "parse_pairs shape input = map (\<lambda>(key, t). (key, parse_type t [key] (obj_get input key))) shape"

fun mergeObjectSync :: "js_object \<Rightarrow> (string \<times> ParseReturn \<times> ZodIssue list) list \<Rightarrow> ParseReturn \<times> js_object" where
  \<comment> \<open>the status of the object and the object of the parsed values; a key whose value is
      \<^verbatim>\<open>undefined\<close> is set only when the input has the key\<close>
  "mergeObjectSync input [] = (VALID Undefined, [])"
| "mergeObjectSync input ((key, r, issues) # pairs) =
     (case r of
        INVALID \<Rightarrow> (INVALID, [])
      | _ \<Rightarrow>
        (let v = (case r of DIRTY x \<Rightarrow> x | VALID x \<Rightarrow> x | INVALID \<Rightarrow> Undefined);
             (st, obj) = mergeObjectSync input pairs;
             obj' = (if v \<noteq> Undefined \<or> key \<in> fst ` set input then (key, v) # obj else obj)
         in (case st of
               INVALID \<Rightarrow> (INVALID, [])
             | DIRTY u \<Rightarrow> (DIRTY Undefined, obj')
             | VALID u \<Rightarrow> ((case r of DIRTY x \<Rightarrow> DIRTY Undefined | _ \<Rightarrow> VALID Undefined), obj'))))"

definition safeParse :: "ZodRawShape \<Rightarrow> js_object \<Rightarrow> SafeParseReturn" where
  "safeParse shape input =
     (let pairs = parse_pairs shape input;
          issues = concat (map (\<lambda>(key, r, iss). iss) pairs)
      in (case mergeObjectSync input pairs of
            (VALID u, obj) \<Rightarrow> SafeParseSuccess obj
          | _ \<Rightarrow> SafeParseError issues))"

type_synonym fieldErrors = "(string \<times> string list) list"

definition push_fieldError :: "fieldErrors \<Rightarrow> ZodIssue \<Rightarrow> fieldErrors" where
  "push_fieldError fe sub = (case issue_path sub of
       [] \<Rightarrow> fe
     | key # rest \<Rightarrow>
         AList.update key (nullish (map_of fe key) [] @ [issue_message sub]) fe)"

definition flatten_fieldErrors :: "ZodIssue list \<Rightarrow> fieldErrors" where
  \<comment> \<open>\<^verbatim>\<open>error.flatten().fieldErrors\<close>\<close>
  "flatten_fieldErrors issues = foldl push_fieldError [] issues"

section \<open>The invoice actions\<close>

subsection \<open>The schema\<close>

definition formSchema :: ZodRawShape where
  "formSchema =
     [(''id'', z_string None),
      (''customerId'', z_string (Some \<lparr>message_param = None,
          invalid_type_error = Some ''Please select a customer'', required_error = None\<rparr>)),
      (''amount'', gt (Fin 0) ''Please enter an amount greater tahn $0.'' z_coerce_number),
      (''status'', z_enum [''pending'', ''paid''] (Some \<lparr>message_param = None,
          invalid_type_error = Some ''Please select an invoice status'', required_error = None\<rparr>)),
      (''date'', z_string None)]"

definition CreateInvoice :: ZodRawShape where
  "CreateInvoice = omit [''id'', ''date''] formSchema"

definition UpdateInvoice :: ZodRawShape where
  "UpdateInvoice = omit [''id'', ''date''] formSchema"

record State =
  errors :: "fieldErrors option"
  message :: "string option"

subsection \<open>The world an action runs in\<close>

text \<open>
  An action is an \<^verbatim>\<open>async\<close> function: it reads and changes the world and either
  returns a value or throws. The world holds the \<^verbatim>\<open>invoices\<close> table, what the
  database refuses (\<open>db_rejects\<close>: a statement that fails, for a constraint, a type or a
  lost connection, throws and changes nothing), the identifier the table's default gives
  a new row, the clock, the outcome of the \<^verbatim>\<open>signIn\<close> of \<^verbatim>\<open>@/auth\<close> (which is not among
  the sources and is a parameter here), and a record of the effects: the statements sent
  to the database, the paths given to \<^verbatim>\<open>revalidatePath\<close> and what was logged.

  A row holds in each column the value the statement carried. The types and constraints
  of the columns belong to the database, whose schema is not among the sources: a
  database that refuses a value is a world whose \<open>db_rejects\<close> holds for the statement.
\<close>

datatype exn =
    AuthError string
  | Error string
  | PostgresError
  | NEXT_REDIRECT string

record InvoiceRow =
  invoice_id :: string
  customer_id :: js_value
  amount :: jsnum
  status :: js_value
  date :: string

datatype SqlStatement =
    INSERT_INTO_invoices js_value jsnum js_value string
  | UPDATE_invoices js_value jsnum js_value string
  | DELETE_FROM_invoices string

record World =
  invoices :: "InvoiceRow list"
  db_rejects :: "SqlStatement \<Rightarrow> bool"
  generate_id :: "InvoiceRow list \<Rightarrow> string"
  now_toISOString :: string
  signIn_outcome :: "string \<Rightarrow> FormData \<Rightarrow> exn option"
  executed :: "SqlStatement list"
  revalidated :: "string list"
  console :: "exn list"

type_synonym 'a Action = "World \<Rightarrow> (exn + 'a) \<times> World"

definition resolve :: "'a \<Rightarrow> 'a Action" where
  "resolve x w = (Inr x, w)"

definition throw :: "exn \<Rightarrow> 'a Action" where
  "throw e w = (Inl e, w)"

definition and_then :: "'a Action \<Rightarrow> ('a \<Rightarrow> 'b Action) \<Rightarrow> 'b Action" where
  \<comment> \<open>sequencing: what follows a statement that throws does not run\<close>
  "and_then m f w = (case m w of
       (Inl e, w') \<Rightarrow> (Inl e, w')
     | (Inr x, w') \<Rightarrow> f x w')"

definition try_catch :: "'a Action \<Rightarrow> (exn \<Rightarrow> 'a Action) \<Rightarrow> 'a Action" where
  "try_catch m handler w = (case m w of
       (Inl e, w') \<Rightarrow> handler e w'
     | (Inr x, w') \<Rightarrow> (Inr x, w'))"

fun apply_statement :: "World \<Rightarrow> SqlStatement \<Rightarrow> InvoiceRow list" where
  "apply_statement w (INSERT_INTO_invoices c a s d) =
     invoices w @ [\<lparr>invoice_id = generate_id w (invoices w), customer_id = c, amount = a, status = s, date = d\<rparr>]"
| "apply_statement w (UPDATE_invoices c a s i) =
     map (\<lambda>row. if invoice_id row = i then row\<lparr>customer_id := c, amount := a, status := s\<rparr> else row)
       (invoices w)"
| "apply_statement w (DELETE_FROM_invoices i) =
     filter (\<lambda>row. invoice_id row \<noteq> i) (invoices w)"

definition sql :: "SqlStatement \<Rightarrow> unit Action" where
  "sql stmt w =
     (let w' = w\<lparr>executed := executed w @ [stmt]\<rparr>
      in if db_rejects w stmt then (Inl PostgresError, w')
         else (Inr (), w'\<lparr>invoices := apply_statement w stmt\<rparr>))"

definition revalidatePath :: "string \<Rightarrow> unit Action" where
  "revalidatePath p w = (Inr (), w\<lparr>revalidated := revalidated w @ [p]\<rparr>)"

definition redirect :: "string \<Rightarrow> 'a Action" where
  \<comment> \<open>\<^verbatim>\<open>redirect\<close> of \<^verbatim>\<open>next/navigation\<close> throws: nothing after it runs\<close>
  "redirect p = throw (NEXT_REDIRECT p)"

definition console_log :: "exn \<Rightarrow> unit Action" where
  "console_log e w = (Inr (), w\<lparr>console := console w @ [e]\<rparr>)"

definition today :: "string Action" where
  \<comment> \<open>\<^verbatim>\<open>new Date().toISOString().split('T')[0]\<close>\<close>
  "today w = (Inr (split_first CHR ''T'' (now_toISOString w)), w)"

definition signIn :: "string \<Rightarrow> FormData \<Rightarrow> unit Action" where
  "signIn provider formData w = (case signIn_outcome w provider formData of
       None \<Rightarrow> (Inr (), w)
     | Some e \<Rightarrow> (Inl e, w))"

subsection \<open>\<^verbatim>\<open>createInvoice\<close>, \<^verbatim>\<open>updateInvoice\<close>, \<^verbatim>\<open>deleteInvoice\<close>\<close>

definition form_fields :: "FormData \<Rightarrow> js_object" where
  \<comment> \<open>the object literal both actions hand to \<^verbatim>\<open>safeParse\<close>\<close>
  "form_fields formData =
     [(''customerId'', formData_get formData ''customerId''),
      (''amount'', formData_get formData ''amount''),
      (''status'', formData_get formData ''status'')]"

definition createInvoice :: "State \<Rightarrow> FormData \<Rightarrow> State Action" where
  "createInvoice prevState formData =
     (case safeParse CreateInvoice (form_fields formData) of
        SafeParseError issues \<Rightarrow>
          resolve \<lparr>errors = Some (flatten_fieldErrors issues),
                   message = Some ''Missing Fields. Failed to Create Invoice.''\<rparr>
      | SafeParseSuccess data \<Rightarrow>
          (let customerId = obj_get data ''customerId'';
               amount = obj_get data ''amount'';
               status = obj_get data ''status'';
               amountInCents = js_mul (Number amount) (Fin 100)
           in and_then today (\<lambda>date.
              and_then
                (try_catch
                   (and_then (sql (INSERT_INTO_invoices customerId amountInCents status date))
                      (\<lambda>_. resolve None))
                   (\<lambda>error. resolve
                      (Some \<lparr>errors = None,
                             message = Some ''Database Error: Failed to Create Invoice''\<rparr>)))
                (\<lambda>returned. case returned of
                     Some st \<Rightarrow> resolve st
                   | None \<Rightarrow>
                       and_then (revalidatePath ''/dashboard/invoices'')
                         (\<lambda>_. redirect ''/dashboard/invoices'')))))"

definition updateInvoice :: "string \<Rightarrow> State \<Rightarrow> FormData \<Rightarrow> State Action" where
  "updateInvoice i prevState formData =
     (case safeParse UpdateInvoice (form_fields formData) of
        SafeParseError issues \<Rightarrow>
          resolve \<lparr>errors = Some (flatten_fieldErrors issues),
                   message = Some ''Missing Fields. Failed to Update Invoice.''\<rparr>
      | SafeParseSuccess data \<Rightarrow>
          (let customerId = obj_get data ''customerId'';
               amount = obj_get data ''amount'';
               status = obj_get data ''status'';
               amountInCents = js_mul (Number amount) (Fin 100)
           in and_then
                (try_catch
                   (and_then (sql (UPDATE_invoices customerId amountInCents status i))
                      (\<lambda>_. resolve None))
                   (\<lambda>error. and_then (console_log error) (\<lambda>_. resolve
                      (Some \<lparr>errors = None,
                             message = Some ''Database Error: Failed to Update Invoice''\<rparr>))))
                (\<lambda>returned. case returned of
                     Some st \<Rightarrow> resolve st
                   | None \<Rightarrow>
                       and_then (revalidatePath ''/dashboard/invoices'')
                         (\<lambda>_. redirect ''/dashboard/invoices''))))"

definition deleteInvoice :: "string \<Rightarrow> unit Action" where
  "deleteInvoice i =
     and_then (throw (Error ''Failed to Delete Invoice'') :: unit Action)
       (\<lambda>_. and_then (sql (DELETE_FROM_invoices i))
          (\<lambda>_. revalidatePath ''/dashboard/invoices''))"

subsection \<open>\<^verbatim>\<open>authenticate\<close>\<close>

definition authenticate :: "string option \<Rightarrow> FormData \<Rightarrow> string option Action" where
  \<comment> \<open>the result \<open>None\<close> is the \<^verbatim>\<open>undefined\<close> of a call that ends without \<^verbatim>\<open>return\<close>\<close>
  "authenticate prevState formData =
     try_catch
       (and_then (signIn ''credentials'' formData) (\<lambda>_. resolve None))
       (\<lambda>error. case error of
            AuthError type \<Rightarrow>
              if type = ''CredentialsSignin'' then resolve (Some ''Invalid credentials.'')
              else resolve (Some ''Something went wrong.'')
          | _ \<Rightarrow> throw error)"

section \<open>The \<^verbatim>\<open>authorized\<close> callback\<close>

record 'u Session =
  user :: "'u option"

record NextURL =
  origin :: string
  pathname :: string
  search :: string

datatype authorized_return = Boolean bool | Response_redirect NextURL

definition new_URL :: "string \<Rightarrow> NextURL \<Rightarrow> NextURL" where
  \<comment> \<open>\<^verbatim>\<open>new URL(path, base)\<close> for an absolute path: the origin of the base, the path, no query\<close>
  "new_URL path base = \<lparr>origin = origin base, pathname = path, search = []\<rparr>"

definition authorized :: "'u Session option \<Rightarrow> NextURL \<Rightarrow> authorized_return" where
  "authorized auth nextUrl =
     (let isLoggedIn = (case auth of None \<Rightarrow> False | Some session \<Rightarrow> user session \<noteq> None);
          isOnDashboard = startsWith (pathname nextUrl) ''/dashboard''
      in if isOnDashboard then
           (if isLoggedIn then Boolean True else Boolean False)
         else if isLoggedIn then Response_redirect (new_URL ''/dashboard'' nextUrl)
         else Boolean True)"

section \<open>Notions of the specification\<close>

text \<open>
  The specification speaks of \<open>round(amount * 100)\<close>: \<^verbatim>\<open>Math.round\<close>, the nearest
  integer, a tie going up. It also names the message of the amount rule with the
  spelling "than". Both are written down here to be compared with what the source does.
\<close>

fun Math_round :: "jsnum \<Rightarrow> jsnum" where
  "Math_round (Fin q) = Fin (of_int \<lfloor>q + 1 / 2\<rfloor>)"
| "Math_round x = x"

definition spec_amount_message :: string where
  "spec_amount_message = ''Please enter an amount greater than $0.''"

definition field_messages :: "SafeParseReturn \<Rightarrow> string \<Rightarrow> string list" where
  \<comment> \<open>the messages a validation outcome carries for a field: none when it succeeded\<close>
  "field_messages r key = (case r of
       SafeParseSuccess data \<Rightarrow> []
     | SafeParseError issues \<Rightarrow> nullish (map_of (flatten_fieldErrors issues) key) [])"

definition field_issues :: "SafeParseReturn \<Rightarrow> string \<Rightarrow> ZodIssue list" where
  \<comment> \<open>the issues a validation outcome carries for a field, in order\<close>
  "field_issues r key = (case r of
       SafeParseSuccess data \<Rightarrow> []
     | SafeParseError issues \<Rightarrow> filter (\<lambda>i. take 1 (issue_path i) = [key]) issues)"

section \<open>Worlds for the examples\<close>

text \<open>
  \<open>world0\<close> has an empty table and a database that accepts every statement;
  \<open>world1\<close> holds two invoices; \<open>world_down\<close> is \<open>world1\<close> with a database that
  refuses every statement.
\<close>

definition invoice_form :: "string \<Rightarrow> string \<Rightarrow> string \<Rightarrow> FormData" where
  \<comment> \<open>a submitted form with the three fields filled in\<close>
  "invoice_form c a s =
     [(''customerId'', EntryString c), (''amount'', EntryString a), (''status'', EntryString s)]"

definition world0 :: World where
  "world0 = \<lparr>invoices = [], db_rejects = (\<lambda>stmt. False), generate_id = (\<lambda>rows. ''inv-1''),
     now_toISOString = ''2024-05-06T07:08:09.123Z'',
     signIn_outcome = (\<lambda>provider formData. None),
     executed = [], revalidated = [], console = []\<rparr>"

definition world1 :: World where
  "world1 = world0\<lparr>invoices :=
     [\<lparr>invoice_id = ''a'', customer_id = Str ''c1'', amount = Fin 1000, status = Str ''paid'',
        date = ''2024-01-02''\<rparr>,
      \<lparr>invoice_id = ''b'', customer_id = Str ''c2'', amount = Fin 250, status = Str ''pending'',
        date = ''2024-03-04''\<rparr>],
     generate_id := (\<lambda>rows. ''inv-3'')\<rparr>"

definition world_down :: World where
  "world_down = world1\<lparr>db_rejects := (\<lambda>stmt. True)\<rparr>"

section \<open>Auxiliary facts\<close>

subsection \<open>Validation\<close>

lemma CreateInvoice_shape:
  "CreateInvoice =
     [(''customerId'', ZodString (Some \<lparr>message_param = None,
          invalid_type_error = Some ''Please select a customer'', required_error = None\<rparr>)),
      (''amount'', ZodNumber True [Min (Fin 0) False ''Please enter an amount greater tahn $0.'']),
      (''status'', ZodEnum [''pending'', ''paid''] (Some \<lparr>message_param = None,
          invalid_type_error = Some ''Please select an invoice status'', required_error = None\<rparr>))]"
  by (simp add: CreateInvoice_def omit_def formSchema_def z_string_def z_coerce_number_def z_enum_def)

lemma parse_type_valid_iff:
  "(snd (parse_type t p d) = []) = (\<exists>x. fst (parse_type t p d) = VALID x)"
  by (cases t) (auto simp: Let_def split: js_value.splits)

lemma parse_type_path:
  "i \<in> set (snd (parse_type t p d)) \<Longrightarrow> issue_path i = p"
  by (cases t) (auto simp: Let_def run_check_def split: js_value.splits if_splits)

lemma nullish_flatten:
  "nullish (map_of (foldl push_fieldError fe iss) k) [] =
     nullish (map_of fe k) [] @ map issue_message (filter (\<lambda>i. take 1 (issue_path i) = [k]) iss)"
proof (induction iss arbitrary: fe)
  case Nil
  then show ?case by simp
next
  case (Cons i iss)
  show ?case
  proof (cases "issue_path i")
    case Nil
    then show ?thesis using Cons.IH[of fe] by (simp add: push_fieldError_def)
  next
    case (Cons key rest)
    then show ?thesis
      using Cons.IH[of "push_fieldError fe i"]
      by (simp add: push_fieldError_def update_conv' nullish_def)
  qed
qed

lemma mergeObjectSync_valid:
  "(\<exists>u. fst (mergeObjectSync input pairs) = VALID u) =
     (\<forall>p \<in> set pairs. \<exists>x. fst (snd p) = VALID x)"
proof (induction pairs)
  case Nil
  then show ?case by simp
next
  case (Cons p pairs)
  obtain key r iss where p: "p = (key, r, iss)" by (cases p)
  obtain st obj where m: "mergeObjectSync input pairs = (st, obj)" by fastforce
  show ?case
    using Cons.IH
    by (cases r; cases st) (simp_all add: p m Let_def)
qed

lemma safeParse_cases:
  "safeParse shape input =
     (if concat (map (\<lambda>(key, t). snd (parse_type t [key] (obj_get input key))) shape) = []
      then SafeParseSuccess (snd (mergeObjectSync input (parse_pairs shape input)))
      else SafeParseError
        (concat (map (\<lambda>(key, t). snd (parse_type t [key] (obj_get input key))) shape)))"
proof -
  let ?pairs = "parse_pairs shape input"
  have iss: "concat (map (\<lambda>(key, r, iss). iss) ?pairs) =
      concat (map (\<lambda>(key, t). snd (parse_type t [key] (obj_get input key))) shape)"
    by (simp add: parse_pairs_def comp_def case_prod_unfold)
  have "(\<exists>u. fst (mergeObjectSync input ?pairs) = VALID u) =
      (\<forall>p \<in> set shape. snd (parse_type (snd p) [fst p] (obj_get input (fst p))) = [])"
    by (simp add: mergeObjectSync_valid parse_pairs_def case_prod_unfold parse_type_valid_iff)
  also have "\<dots> =
      (concat (map (\<lambda>(key, t). snd (parse_type t [key] (obj_get input key))) shape) = [])"
    by (auto simp: case_prod_unfold)
  finally have v: "(\<exists>u. fst (mergeObjectSync input ?pairs) = VALID u) =
      (concat (map (\<lambda>(key, t). snd (parse_type t [key] (obj_get input key))) shape) = [])" .
  obtain st obj where m: "mergeObjectSync input ?pairs = (st, obj)" by fastforce
  show ?thesis
    using v unfolding safeParse_def Let_def iss m
    by (cases st) auto
qed


lemma field_messages_issues:
  "field_messages r key = map issue_message (field_issues r key)"
  using nullish_flatten [of "[]" _ key]
  by (cases r) (simp_all add: field_messages_def field_issues_def flatten_fieldErrors_def nullish_def)

lemma filter_parse_type:
  "filter (\<lambda>i. take (Suc 0) (issue_path i) = [key]) (snd (parse_type t [k] d)) =
     (if k = key then snd (parse_type t [k] d) else [])"
proof -
  have "\<forall>i \<in> set (snd (parse_type t [k] d)). issue_path i = [k]"
    by (simp add: parse_type_path)
  then show ?thesis
    by (induction "snd (parse_type t [k] d)") (auto simp: filter_empty_conv filter_id_conv)
qed

lemma filter_shape_issues:
  assumes "distinct (map fst shape)" "(key, t) \<in> set shape"
  shows "filter (\<lambda>i. take (Suc 0) (issue_path i) = [key])
           (concat (map (\<lambda>(k, t). snd (parse_type t [k] (obj_get input k))) shape)) =
         snd (parse_type t [key] (obj_get input key))"
  using assms
proof (induction shape)
  case Nil
  then show ?case by simp
next
  case (Cons p shape)
  obtain k t' where p: "p = (k, t')" by (cases p)
  show ?case
  proof (cases "k = key")
    case True
    then have t: "t' = t" using Cons.prems p by (auto simp: image_iff)
    have "\<forall>q \<in> set shape. fst q \<noteq> key" using Cons.prems p True by (auto simp: image_iff)
    then have "filter (\<lambda>i. take (Suc 0) (issue_path i) = [key])
        (concat (map (\<lambda>(k, t). snd (parse_type t [k] (obj_get input k))) shape)) = []"
      by (induction shape) (auto simp: filter_parse_type)
    then show ?thesis using True t by (simp add: p filter_parse_type)
  next
    case False
    then show ?thesis using Cons p by (simp add: filter_parse_type)
  qed
qed

lemma field_issues_safeParse:
  assumes "distinct (map fst shape)" "(key, t) \<in> set shape"
  shows "field_issues (safeParse shape input) key = snd (parse_type t [key] (obj_get input key))"
proof (cases "concat (map (\<lambda>(k, t). snd (parse_type t [k] (obj_get input k))) shape) = []")
  case True
  then have "snd (parse_type t [key] (obj_get input key)) = []"
    using assms(2) by auto
  then show ?thesis using True by (simp add: safeParse_cases field_issues_def)
next
  case False
  then show ?thesis
    using filter_shape_issues [OF assms, of input]
    by (auto simp: safeParse_cases field_issues_def)
qed

lemma obj_get_form_fields:
  "obj_get (form_fields fd) ''customerId'' = formData_get fd ''customerId''"
  "obj_get (form_fields fd) ''amount'' = formData_get fd ''amount''"
  "obj_get (form_fields fd) ''status'' = formData_get fd ''status''"
  by (simp_all add: obj_get_def form_fields_def)

lemma customerId_issues:
  "field_issues (safeParse CreateInvoice (form_fields fd)) ''customerId'' =
     (case formData_get fd ''customerId'' of
        Str s \<Rightarrow> []
      | _ \<Rightarrow> [ZodIssue invalid_type [''customerId''] ''Please select a customer''])"
proof -
  have "formData_get fd ''customerId'' \<noteq> Undefined"
    by (simp add: formData_get_def split: option.splits FormDataEntryValue.splits)
  then show ?thesis
    by (subst field_issues_safeParse [where t = "ZodString (Some \<lparr>message_param = None,
          invalid_type_error = Some ''Please select a customer'', required_error = None\<rparr>)"])
      (auto simp: CreateInvoice_shape obj_get_form_fields getParsedType_def customMap_def
        nullish_def split: js_value.splits)
qed

lemma amount_issues:
  "field_issues (safeParse CreateInvoice (form_fields fd)) ''amount'' =
     (let n = Number (formData_get fd ''amount'') in
      if n = NaN then [ZodIssue invalid_type [''amount''] ''Expected number, received nan'']
      else if js_le n (Fin 0)
        then [ZodIssue too_small [''amount''] ''Please enter an amount greater tahn $0.'']
      else [])"
  by (subst field_issues_safeParse [where
        t = "ZodNumber True [Min (Fin 0) False ''Please enter an amount greater tahn $0.'']"])
    (auto simp: CreateInvoice_shape obj_get_form_fields getParsedType_def Let_def
      run_check_def invalid_type_default_def)

lemma status_issues:
  "field_issues (safeParse CreateInvoice (form_fields fd)) ''status'' =
     (case formData_get fd ''status'' of
        Str s \<Rightarrow>
          if s = ''pending'' \<or> s = ''paid'' then []
          else [ZodIssue invalid_enum_value [''status'']
                  (invalid_enum_value_default [''pending'', ''paid''] s)]
      | _ \<Rightarrow> [ZodIssue invalid_type [''status''] ''Please select an invoice status''])"
proof -
  have "formData_get fd ''status'' \<noteq> Undefined"
    by (simp add: formData_get_def split: option.splits FormDataEntryValue.splits)
  then show ?thesis
    by (subst field_issues_safeParse [where t = "ZodEnum [''pending'', ''paid'']
          (Some \<lparr>message_param = None,
          invalid_type_error = Some ''Please select an invoice status'', required_error = None\<rparr>)"])
      (auto simp: CreateInvoice_shape obj_get_form_fields getParsedType_def customMap_def
        nullish_def split: js_value.splits)
qed


lemma formData_get_cases:
  "formData_get fd key = Null \<or> formData_get fd key = FileObj \<or> (\<exists>s. formData_get fd key = Str s)"
  by (simp add: formData_get_def split: option.splits FormDataEntryValue.splits)

lemma form_fields_keys:
  "fst ` set (form_fields fd) = {''customerId'', ''amount'', ''status''}"
  by (auto simp: form_fields_def)

lemma parse_customerId:
  "parse_type (ZodString (Some \<lparr>message_param = None,
       invalid_type_error = Some ''Please select a customer'', required_error = None\<rparr>))
     p (formData_get fd key) =
   (case formData_get fd key of
      Str s \<Rightarrow> (VALID (Str s), [])
    | _ \<Rightarrow> (INVALID, [ZodIssue invalid_type p ''Please select a customer'']))"
  using formData_get_cases [of fd key]
  by (auto simp: getParsedType_def customMap_def nullish_def)

lemma parse_amount:
  "parse_type (ZodNumber True [Min (Fin 0) False m]) p v =
   (if Number v = NaN
    then (INVALID, [ZodIssue invalid_type p ''Expected number, received nan''])
    else if js_le (Number v) (Fin 0) then (DIRTY (Num (Number v)), [ZodIssue too_small p m])
    else (VALID (Num (Number v)), []))"
  by (simp add: getParsedType_def run_check_def invalid_type_default_def)

lemma parse_status:
  "parse_type (ZodEnum [''pending'', ''paid''] (Some \<lparr>message_param = None,
       invalid_type_error = Some ''Please select an invoice status'', required_error = None\<rparr>))
     p (formData_get fd key) =
   (case formData_get fd key of
      Str s \<Rightarrow>
        if s = ''pending'' \<or> s = ''paid'' then (VALID (Str s), [])
        else (INVALID, [ZodIssue invalid_enum_value p
                (invalid_enum_value_default [''pending'', ''paid''] s)])
    | _ \<Rightarrow> (INVALID, [ZodIssue invalid_type p ''Please select an invoice status'']))"
  using formData_get_cases [of fd key]
  by (auto simp: getParsedType_def customMap_def nullish_def)

lemma safeParse_CreateInvoice_success:
  "(safeParse CreateInvoice (form_fields fd) = SafeParseSuccess data) =
     ((\<exists>c. formData_get fd ''customerId'' = Str c)
      \<and> Number (formData_get fd ''amount'') \<noteq> NaN
      \<and> \<not> js_le (Number (formData_get fd ''amount'')) (Fin 0)
      \<and> (formData_get fd ''status'' = Str ''pending'' \<or> formData_get fd ''status'' = Str ''paid'')
      \<and> data = [(''customerId'', formData_get fd ''customerId''),
                 (''amount'', Num (Number (formData_get fd ''amount''))),
                 (''status'', formData_get fd ''status'')])"
proof -
  have k: "''customerId'' \<in> fst ` set (form_fields fd)" "''amount'' \<in> fst ` set (form_fields fd)"
    "''status'' \<in> fst ` set (form_fields fd)"
    by (simp_all add: form_fields_keys)
  show ?thesis
    unfolding safeParse_def parse_pairs_def CreateInvoice_shape Let_def
    apply (simp only: list.map prod.case obj_get_form_fields parse_customerId parse_amount
        parse_status)
    apply (cases "formData_get fd ''customerId''"; cases "formData_get fd ''status''";
        cases "Number (formData_get fd ''amount'') = NaN";
        cases "js_le (Number (formData_get fd ''amount'')) (Fin 0)")
    apply (simp_all add: k)
    apply auto
    done
qed

lemma createInvoice_invalid:
  "safeParse CreateInvoice (form_fields fd) = SafeParseError issues \<Longrightarrow>
   createInvoice st fd w =
     (Inr \<lparr>errors = Some (flatten_fieldErrors issues),
           message = Some ''Missing Fields. Failed to Create Invoice.''\<rparr>, w)"
  by (simp add: createInvoice_def resolve_def)

lemma createInvoice_valid:
  assumes "safeParse CreateInvoice (form_fields fd) = SafeParseSuccess data"
  shows "createInvoice st fd w =
     (let stmt = INSERT_INTO_invoices (formData_get fd ''customerId'')
                   (js_mul (Number (formData_get fd ''amount'')) (Fin 100))
                   (formData_get fd ''status'') (split_first CHR ''T'' (now_toISOString w));
          w' = w\<lparr>executed := executed w @ [stmt]\<rparr>
      in if db_rejects w stmt
         then (Inr \<lparr>errors = None,
                    message = Some ''Database Error: Failed to Create Invoice''\<rparr>, w')
         else (Inl (NEXT_REDIRECT ''/dashboard/invoices''),
               w'\<lparr>invoices := apply_statement w stmt,
                   revalidated := revalidated w @ [''/dashboard/invoices'']\<rparr>))"
proof -
  have d: "data = [(''customerId'', formData_get fd ''customerId''),
                 (''amount'', Num (Number (formData_get fd ''amount''))),
                 (''status'', formData_get fd ''status'')]"
    using assms by (simp add: safeParse_CreateInvoice_success)
  show ?thesis
    by (simp add: createInvoice_def assms d obj_get_def Number_def Let_def and_then_def
        try_catch_def today_def sql_def resolve_def revalidatePath_def redirect_def throw_def)
qed

lemma updateInvoice_invalid:
  "safeParse UpdateInvoice (form_fields fd) = SafeParseError issues \<Longrightarrow>
   updateInvoice i st fd w =
     (Inr \<lparr>errors = Some (flatten_fieldErrors issues),
           message = Some ''Missing Fields. Failed to Update Invoice.''\<rparr>, w)"
  by (simp add: updateInvoice_def resolve_def)

lemma updateInvoice_valid:
  assumes "safeParse UpdateInvoice (form_fields fd) = SafeParseSuccess data"
  shows "updateInvoice i st fd w =
     (let stmt = UPDATE_invoices (formData_get fd ''customerId'')
                   (js_mul (Number (formData_get fd ''amount'')) (Fin 100))
                   (formData_get fd ''status'') i;
          w' = w\<lparr>executed := executed w @ [stmt]\<rparr>
      in if db_rejects w stmt
         then (Inr \<lparr>errors = None,
                    message = Some ''Database Error: Failed to Update Invoice''\<rparr>,
               w'\<lparr>console := console w @ [PostgresError]\<rparr>)
         else (Inl (NEXT_REDIRECT ''/dashboard/invoices''),
               w'\<lparr>invoices := apply_statement w stmt,
                   revalidated := revalidated w @ [''/dashboard/invoices'']\<rparr>))"
proof -
  have "safeParse CreateInvoice (form_fields fd) = SafeParseSuccess data"
    using assms by (simp add: CreateInvoice_def UpdateInvoice_def)
  then have d: "data = [(''customerId'', formData_get fd ''customerId''),
                 (''amount'', Num (Number (formData_get fd ''amount''))),
                 (''status'', formData_get fd ''status'')]"
    by (simp add: safeParse_CreateInvoice_success)
  show ?thesis
    by (simp add: updateInvoice_def assms d obj_get_def Number_def Let_def and_then_def
        try_catch_def sql_def resolve_def revalidatePath_def redirect_def throw_def
        console_log_def)
qed

lemma split_first_append:
  "c \<notin> set d \<Longrightarrow> split_first c (d @ c # t) = d"
  by (induction d) (auto simp: split_first_def)


lemma ilog2_lower:
  assumes "0 < q"
  shows "2 powi (ilog2 q) \<le> q"
proof -
  obtain a b where ab: "quotient_of q = (a, b)" by fastforce
  have b: "0 < b" using quotient_of_denom_pos[OF ab] .
  have q: "q = of_int a / of_int b" using quotient_of_div[OF ab] .
  have a: "0 < a" using assms b q by (simp add: zero_less_divide_iff)
  have la1: "1 \<le> bitlen a" using a by (simp add: bitlen_alt_def)
  have lb1: "1 \<le> bitlen b" using b by (simp add: bitlen_alt_def)
  have "(2::int) ^ nat (bitlen a - 1) \<le> a" using bitlen_bounds[OF a] by simp
  then have "(of_int ((2::int) ^ nat (bitlen a - 1)) :: rat) \<le> of_int a"
    by (simp only: of_int_le_iff)
  then have la: "(2::rat) powi (bitlen a - 1) \<le> of_int a"
    using la1 by (simp add: power_int_def)
  have "b < (2::int) ^ nat (bitlen b)" using bitlen_bounds[OF b] by simp
  then have "(of_int b :: rat) < of_int ((2::int) ^ nat (bitlen b))"
    by (simp only: of_int_less_iff)
  then have lb: "(of_int b :: rat) < 2 powi (bitlen b)"
    using lb1 by (simp add: power_int_def)
  have "bitlen a - bitlen b - 1 = (bitlen a - 1) - bitlen b" by simp
  then have "(2::rat) powi (bitlen a - bitlen b - 1) = 2 powi (bitlen a - 1) / 2 powi (bitlen b)"
    by (simp only: power_int_diff[of "2::rat", simplified])
  also have "\<dots> \<le> of_int a / 2 powi (bitlen b)"
    using la by (simp add: divide_right_mono)
  also have "\<dots> \<le> of_int a / of_int b"
    using lb a b by (simp add: frac_le)
  finally have low: "(2::rat) powi (bitlen a - bitlen b - 1) \<le> q" using q by simp
  show ?thesis
    using low by (simp add: ilog2_def ab Let_def)
qed

lemma round_half_even_of_int: "round_half_even (of_int z) = z"
  by (simp add: round_half_even_def)

lemma round_double_exact:
  assumes n: "0 < n" "n < 2 ^ 53" and k: "- 1074 \<le> k" "k \<le> 971"
  shows "round_double (of_int n * 2 powi k) = Fin (of_int n * 2 powi k)"
proof -
  define m :: rat where "m = of_int n * 2 powi k"
  have mpos: "0 < m" using n by (simp add: m_def)
  have "(of_int n :: rat) < of_int (2 ^ 53)" using n by (simp only: of_int_less_iff)
  then have nlt: "(of_int n :: rat) < 2 powi 53" by simp
  have "m < 2 powi 53 * 2 powi k" unfolding m_def using nlt by simp
  then have mlt: "m < 2 powi (53 + k)" by (simp add: power_int_add)
  have "(2::rat) powi (ilog2 m) < 2 powi (53 + k)"
    using ilog2_lower[OF mpos] mlt by simp
  then have "ilog2 m < 53 + k"
    using power_int_increasing[of "53 + k" "ilog2 m" "2::rat"] by (cases "ilog2 m < 53 + k") auto
  define e where "e = max (ilog2 m) (- 1022)"
  have e: "e - 52 \<le> k" using \<open>ilog2 m < 53 + k\<close> k by (simp add: e_def)
  define j where "j = nat (k - (e - 52))"
  have kj: "k = (e - 52) + int j" using e by (simp add: j_def)
  have "m / 2 powi (e - 52) = of_int n * (2 powi k / 2 powi (e - 52))" by (simp add: m_def)
  also have "2 powi k / (2::rat) powi (e - 52) = 2 ^ j"
    by (subst kj) (simp add: power_int_add)
  finally have "m / 2 powi (e - 52) = of_int (n * 2 ^ j)" by simp
  then have r: "of_int (round_half_even (m / 2 powi (e - 52))) * 2 powi (e - 52) = m"
    by (simp only: round_half_even_of_int) (simp add: m_def kj power_int_add)
  have "m < 2 powi (53 + k)" by (rule mlt)
  also have "\<dots> \<le> 2 powi 1024" using k by (intro power_int_increasing) auto
  finally have nov: "\<not> 2 powi 1024 \<le> m" by simp
  show ?thesis
    using mpos r nov unfolding m_def[symmetric]
    by (simp add: round_double_def Let_def e_def[symmetric])
qed

lemma Number_0: "Number (Str ''0'') = Fin 0"
proof -
  have "StringNumericLiteral ''0'' = MV 0" by code_simp
  then show ?thesis by (simp add: Number_def StringToNumber_def round_double_def)
qed

lemma Number_empty: "Number (Str []) = Fin 0"
proof -
  have "StringNumericLiteral [] = MV 0" by code_simp
  then show ?thesis by (simp add: Number_def StringToNumber_def round_double_def)
qed

lemma Number_abc: "Number (Str ''abc'') = NaN"
proof -
  have "StringNumericLiteral ''abc'' = NotNumeric" by code_simp
  then show ?thesis by (simp add: Number_def StringToNumber_def)
qed

lemma Number_File: "Number FileObj = NaN"
proof -
  have "StringNumericLiteral ''[object File]'' = NotNumeric" by code_simp
  then show ?thesis by (simp add: Number_def StringToNumber_def)
qed

lemma Number_25_50: "Number (Str ''25.50'') = Fin (51 / 2)"
proof -
  have "StringNumericLiteral ''25.50'' = MV (51 / 2)" by code_simp
  then show ?thesis
    using round_double_exact [of 51 "- 1"] by (simp add: Number_def StringToNumber_def)
qed

lemma Number_0_125: "Number (Str ''0.125'') = Fin (1 / 8)"
proof -
  have "StringNumericLiteral ''0.125'' = MV (1 / 8)" by code_simp
  then show ?thesis
    using round_double_exact [of 1 "- 3"] by (simp add: Number_def StringToNumber_def)
qed

lemma Number_50: "Number (Str ''50'') = Fin 50"
proof -
  have "StringNumericLiteral ''50'' = MV 50" by code_simp
  then show ?thesis
    using round_double_exact [of 50 0] by (simp add: Number_def StringToNumber_def)
qed

lemma cents_25_50: "js_mul (Fin (51 / 2)) (Fin 100) = Fin 2550"
  using round_double_exact [of 2550 0] by simp

lemma cents_0_125: "js_mul (Fin (1 / 8)) (Fin 100) = Fin (25 / 2)"
  using round_double_exact [of 25 "- 1"] by simp

lemma cents_50: "js_mul (Fin 50) (Fin 100) = Fin 5000"
  using round_double_exact [of 5000 0] by simp


lemma formData_get_invoice_form:
  "formData_get (invoice_form c a s) ''customerId'' = Str c"
  "formData_get (invoice_form c a s) ''amount'' = Str a"
  "formData_get (invoice_form c a s) ''status'' = Str s"
  by (simp_all add: formData_get_def invoice_form_def)

lemma field_issues_nonempty:
  "field_issues r key \<noteq> [] \<Longrightarrow> \<exists>issues. r = SafeParseError issues"
  by (cases r) (simp_all add: field_issues_def)

lemma map_of_flatten_messages:
  assumes "field_messages (SafeParseError issues) key = m # ms"
  shows "map_of (flatten_fieldErrors issues) key = Some (m # ms)"
  using assms by (simp add: field_messages_def nullish_def split: option.splits)

lemma invalid_enum_value_default_foo:
  "invalid_enum_value_default [''pending'', ''paid''] ''foo'' =
     ''Invalid enum value. Expected '' @ [CHR 0x27] @ ''pending'' @ [CHR 0x27] @ '' | ''
       @ [CHR 0x27] @ ''paid'' @ [CHR 0x27] @ '', received '' @ [CHR 0x27] @ ''foo'' @ [CHR 0x27]"
  by (simp add: invalid_enum_value_default_def quoted_def)

section \<open>Results\<close>

subsection \<open>A form that fails validation\<close>

text \<open>
  C1. Whenever \<^verbatim>\<open>safeParse\<close> fails on the submitted fields, \<^verbatim>\<open>createInvoice\<close>
  returns the state whose \<open>errors\<close> are the flattened field errors of the validation
  issues and whose message is "Missing Fields. Failed to Create Invoice."; the world is
  unchanged, so the stored invoices are what they were and no statement reached the
  database.
\<close>

theorem createInvoice_validation_failure:
  assumes "safeParse CreateInvoice (form_fields formData) = SafeParseError issues"
  shows "createInvoice prevState formData w =
           (Inr \<lparr>errors = Some (flatten_fieldErrors issues),
                 message = Some ''Missing Fields. Failed to Create Invoice.''\<rparr>, w)
         \<and> invoices (snd (createInvoice prevState formData w)) = invoices w
         \<and> executed (snd (createInvoice prevState formData w)) = executed w"
  using assms by (simp add: createInvoice_invalid)

text \<open>An empty form in a world with two invoices: three field errors, nothing written.\<close>

theorem createInvoice_validation_failure_witness:
  "safeParse CreateInvoice (form_fields []) =
     SafeParseError
       [ZodIssue invalid_type [''customerId''] ''Please select a customer'',
        ZodIssue too_small [''amount''] ''Please enter an amount greater tahn $0.'',
        ZodIssue invalid_type [''status''] ''Please select an invoice status'']
   \<and> createInvoice \<lparr>errors = None, message = None\<rparr> [] world1 =
       (Inr \<lparr>errors = Some [(''customerId'', [''Please select a customer'']),
                           (''amount'', [''Please enter an amount greater tahn $0.'']),
                           (''status'', [''Please select an invoice status''])],
             message = Some ''Missing Fields. Failed to Create Invoice.''\<rparr>, world1)"
proof -
  have h: "safeParse CreateInvoice (form_fields []) =
     SafeParseError
       [ZodIssue invalid_type [''customerId''] ''Please select a customer'',
        ZodIssue too_small [''amount''] ''Please enter an amount greater tahn $0.'',
        ZodIssue invalid_type [''status''] ''Please select an invoice status'']"
    by code_simp
  have f: "flatten_fieldErrors
       [ZodIssue invalid_type [''customerId''] ''Please select a customer'',
        ZodIssue too_small [''amount''] ''Please enter an amount greater tahn $0.'',
        ZodIssue invalid_type [''status''] ''Please select an invoice status''] =
      [(''customerId'', [''Please select a customer'']),
       (''amount'', [''Please enter an amount greater tahn $0.'']),
       (''status'', [''Please select an invoice status''])]"
    by code_simp
  show ?thesis
    using createInvoice_validation_failure [OF h, of "\<lparr>errors = None, message = None\<rparr>" world1]
    by (simp add: h f)
qed

subsection \<open>The customer field\<close>

text \<open>
  C2, as the code has it. When the form has no string for \<open>customerId\<close> (the field is
  missing, so that \<^verbatim>\<open>FormData.get\<close> gives \<^verbatim>\<open>null\<close>, or it is a file), validation fails
  whatever the other fields hold, the error map has under \<open>customerId\<close> exactly the
  message "Please select a customer", and \<^verbatim>\<open>createInvoice\<close> returns without touching
  the world, so no row is inserted. The empty string, however, is a string:
  \<^verbatim>\<open>z.string\<close> accepts it and the field gets no message.
\<close>

theorem missing_customerId_rejected:
  "((\<forall>s. formData_get formData ''customerId'' \<noteq> Str s) \<longrightarrow>
      (\<exists>issues. safeParse CreateInvoice (form_fields formData) = SafeParseError issues
         \<and> map_of (flatten_fieldErrors issues) ''customerId'' = Some [''Please select a customer'']
         \<and> createInvoice prevState formData w =
             (Inr \<lparr>errors = Some (flatten_fieldErrors issues),
                   message = Some ''Missing Fields. Failed to Create Invoice.''\<rparr>, w)
         \<and> invoices (snd (createInvoice prevState formData w)) = invoices w))
   \<and> (formData_get formData ''customerId'' = Str [] \<longrightarrow>
        field_messages (safeParse CreateInvoice (form_fields formData)) ''customerId'' = [])"
proof (intro conjI impI)
  assume missing: "\<forall>s. formData_get formData ''customerId'' \<noteq> Str s"
  let ?r = "safeParse CreateInvoice (form_fields formData)"
  have fi: "field_issues ?r ''customerId'' =
      [ZodIssue invalid_type [''customerId''] ''Please select a customer'']"
    using missing formData_get_cases [of formData "''customerId''"]
    by (auto simp: customerId_issues)
  then obtain issues where r: "?r = SafeParseError issues"
    using field_issues_nonempty [of ?r "''customerId''"] by auto
  have "field_messages (SafeParseError issues) ''customerId'' = [''Please select a customer'']"
    using fi r by (simp add: field_messages_issues)
  then have m: "map_of (flatten_fieldErrors issues) ''customerId'' = Some [''Please select a customer'']"
    by (rule map_of_flatten_messages)
  show "\<exists>issues. ?r = SafeParseError issues
         \<and> map_of (flatten_fieldErrors issues) ''customerId'' = Some [''Please select a customer'']
         \<and> createInvoice prevState formData w =
             (Inr \<lparr>errors = Some (flatten_fieldErrors issues),
                   message = Some ''Missing Fields. Failed to Create Invoice.''\<rparr>, w)
         \<and> invoices (snd (createInvoice prevState formData w)) = invoices w"
    using r m by (simp add: createInvoice_invalid)
next
  assume "formData_get formData ''customerId'' = Str []"
  then show "field_messages (safeParse CreateInvoice (form_fields formData)) ''customerId'' = []"
    by (simp add: field_messages_issues customerId_issues)
qed

text \<open>
  The form of the scenario without its customer field, and the same form with the empty
  string as customer.
\<close>

theorem missing_customerId_rejected_witness:
  "(\<forall>s. formData_get [(''amount'', EntryString ''50''), (''status'', EntryString ''paid'')]
          ''customerId'' \<noteq> Str s)
   \<and> createInvoice \<lparr>errors = None, message = None\<rparr>
        [(''amount'', EntryString ''50''), (''status'', EntryString ''paid'')] world1 =
       (Inr \<lparr>errors = Some [(''customerId'', [''Please select a customer''])],
             message = Some ''Missing Fields. Failed to Create Invoice.''\<rparr>, world1)
   \<and> formData_get (invoice_form [] ''50'' ''paid'') ''customerId'' = Str []
   \<and> field_messages (safeParse CreateInvoice (form_fields (invoice_form [] ''50'' ''paid'')))
        ''customerId'' = []"
proof -
  let ?fd = "[(''amount'', EntryString ''50''), (''status'', EntryString ''paid'')]"
  have g: "formData_get ?fd ''customerId'' = Null" "formData_get ?fd ''amount'' = Str ''50''"
    "formData_get ?fd ''status'' = Str ''paid''"
    by (simp_all add: formData_get_def)
  have h: "\<forall>s. formData_get ?fd ''customerId'' \<noteq> Str s" by (simp add: g)
  have a: "field_issues (safeParse CreateInvoice (form_fields ?fd)) ''amount'' = []"
    by (simp add: amount_issues g Number_50)
  have s: "field_issues (safeParse CreateInvoice (form_fields ?fd)) ''status'' = []"
    by (simp add: status_issues g)
  have c: "field_issues (safeParse CreateInvoice (form_fields ?fd)) ''customerId'' =
      [ZodIssue invalid_type [''customerId''] ''Please select a customer'']"
    by (simp add: customerId_issues g)
  have p: "safeParse CreateInvoice (form_fields ?fd) =
      SafeParseError [ZodIssue invalid_type [''customerId''] ''Please select a customer'']"
    by (simp add: safeParse_cases CreateInvoice_shape obj_get_form_fields g getParsedType_def
        customMap_def nullish_def invalid_type_default_def run_check_def Number_50 Let_def)
  have f: "flatten_fieldErrors [ZodIssue invalid_type [''customerId''] ''Please select a customer'']
      = [(''customerId'', [''Please select a customer''])]"
    by (simp add: flatten_fieldErrors_def push_fieldError_def nullish_def)
  show ?thesis
    using missing_customerId_rejected [of ?fd "\<lparr>errors = None, message = None\<rparr>" world1]
      missing_customerId_rejected [of "invoice_form [] ''50'' ''paid''"
        "\<lparr>errors = None, message = None\<rparr>" world1]
    by (simp add: h p f formData_get_invoice_form)
qed

text \<open>
  The scenario of the specification itself, \<open>{customerId: "", amount: "50", status: "paid"}\<close>,
  passes validation, and with a database that accepts the statement a row is inserted.
\<close>

theorem empty_customerId_counterexample:
  "safeParse CreateInvoice (form_fields (invoice_form [] ''50'' ''paid'')) =
     SafeParseSuccess [(''customerId'', Str []), (''amount'', Num (Fin 50)), (''status'', Str ''paid'')]
   \<and> invoices (snd (createInvoice \<lparr>errors = None, message = None\<rparr>
        (invoice_form [] ''50'' ''paid'') world0)) =
       [\<lparr>invoice_id = ''inv-1'', customer_id = Str [], amount = Fin 5000, status = Str ''paid'',
         date = ''2024-05-06''\<rparr>]"
proof -
  have p: "safeParse CreateInvoice (form_fields (invoice_form [] ''50'' ''paid'')) =
     SafeParseSuccess [(''customerId'', Str []), (''amount'', Num (Fin 50)), (''status'', Str ''paid'')]"
    by (simp add: safeParse_CreateInvoice_success formData_get_invoice_form Number_50)
  have d: "split_first CHR ''T'' ''2024-05-06T07:08:09.123Z'' = ''2024-05-06''"
    by (simp add: split_first_def)
  show ?thesis
    by (simp add: p createInvoice_valid [OF p] formData_get_invoice_form Number_50 cents_50
        world0_def d Let_def del: js_mul.simps)
qed

subsection \<open>Creating an invoice\<close>

text \<open>
  C3, as the code has it. For every form that passes validation, when the database
  accepts the \<^verbatim>\<open>INSERT\<close>, \<^verbatim>\<open>createInvoice\<close> appends exactly one row to the table and
  sends exactly that one statement. The row's amount is the product of the coerced amount
  and 100 as JavaScript computes it, with no rounding to an integer; its status is the
  submitted status, one of \<open>pending\<close> and \<open>paid\<close>; its customer is the submitted customer;
  and its date is the part of \<^verbatim>\<open>new Date().toISOString()\<close> before the \<open>T\<close>, the UTC
  calendar date of the call.
\<close>

theorem createInvoice_inserts_one_row:
  assumes valid: "safeParse CreateInvoice (form_fields formData) = SafeParseSuccess data"
    and accepted: "\<not> db_rejects w
        (INSERT_INTO_invoices (formData_get formData ''customerId'')
           (js_mul (Number (formData_get formData ''amount'')) (Fin 100))
           (formData_get formData ''status'') day)"
    and clock: "now_toISOString w = day @ CHR ''T'' # time" "CHR ''T'' \<notin> set day"
  shows "\<exists>row. invoices (snd (createInvoice prevState formData w)) = invoices w @ [row]
      \<and> amount row = js_mul (Number (formData_get formData ''amount'')) (Fin 100)
      \<and> status row = formData_get formData ''status''
      \<and> (status row = Str ''pending'' \<or> status row = Str ''paid'')
      \<and> customer_id row = formData_get formData ''customerId''
      \<and> date row = day
      \<and> invoice_id row = generate_id w (invoices w)
      \<and> executed (snd (createInvoice prevState formData w)) =
          executed w @ [INSERT_INTO_invoices (customer_id row) (amount row) (status row) (date row)]"
proof -
  have d: "split_first CHR ''T'' (now_toISOString w) = day"
    using clock by (simp add: split_first_append)
  have s: "formData_get formData ''status'' = Str ''pending''
      \<or> formData_get formData ''status'' = Str ''paid''"
    using valid by (simp add: safeParse_CreateInvoice_success)
  show ?thesis
    using accepted s
    by (simp add: createInvoice_valid [OF valid] d Let_def del: js_mul.simps)
qed

text \<open>The scenario \<open>{customerId: "c1", amount: "25.50", status: "pending"}\<close> stores 2550.\<close>

theorem createInvoice_inserts_one_row_witness:
  "safeParse CreateInvoice (form_fields (invoice_form ''c1'' ''25.50'' ''pending'')) =
     SafeParseSuccess
       [(''customerId'', Str ''c1''), (''amount'', Num (Fin (51 / 2))), (''status'', Str ''pending'')]
   \<and> now_toISOString world1 = ''2024-05-06'' @ CHR ''T'' # ''07:08:09.123Z''
   \<and> CHR ''T'' \<notin> set ''2024-05-06''
   \<and> invoices (snd (createInvoice \<lparr>errors = None, message = None\<rparr>
        (invoice_form ''c1'' ''25.50'' ''pending'') world1)) =
       invoices world1 @
       [\<lparr>invoice_id = ''inv-3'', customer_id = Str ''c1'', amount = Fin 2550,
         status = Str ''pending'', date = ''2024-05-06''\<rparr>]"
proof -
  let ?fd = "invoice_form ''c1'' ''25.50'' ''pending''"
  have p: "safeParse CreateInvoice (form_fields ?fd) =
     SafeParseSuccess
       [(''customerId'', Str ''c1''), (''amount'', Num (Fin (51 / 2))), (''status'', Str ''pending'')]"
    by (simp add: safeParse_CreateInvoice_success formData_get_invoice_form Number_25_50)
  have c: "now_toISOString world1 = ''2024-05-06'' @ CHR ''T'' # ''07:08:09.123Z''"
    by (simp add: world1_def world0_def)
  have t: "CHR ''T'' \<notin> set ''2024-05-06''" by simp
  have a: "\<not> db_rejects world1
        (INSERT_INTO_invoices (formData_get ?fd ''customerId'')
           (js_mul (Number (formData_get ?fd ''amount'')) (Fin 100))
           (formData_get ?fd ''status'') ''2024-05-06'')"
    by (simp add: world1_def world0_def)
  have g: "generate_id world1 (invoices world1) = ''inv-3''"
    by (simp add: world1_def world0_def)
  obtain row where row: "invoices (snd (createInvoice \<lparr>errors = None, message = None\<rparr> ?fd world1))
        = invoices world1 @ [row]"
    "amount row = js_mul (Number (formData_get ?fd ''amount'')) (Fin 100)"
    "status row = formData_get ?fd ''status''"
    "customer_id row = formData_get ?fd ''customerId''"
    "date row = ''2024-05-06''"
    "invoice_id row = generate_id world1 (invoices world1)"
    using createInvoice_inserts_one_row [OF p a c t, of "\<lparr>errors = None, message = None\<rparr>"]
    by blast
  have "row = \<lparr>invoice_id = ''inv-3'', customer_id = Str ''c1'', amount = Fin 2550,
         status = Str ''pending'', date = ''2024-05-06''\<rparr>"
    using row(2-6)
    by (cases row) (simp add: formData_get_invoice_form Number_25_50 cents_25_50 g
        del: js_mul.simps)
  then show ?thesis using p c row(1) by simp
qed

text \<open>
  The amount \<open>"0.125"\<close> is valid; 0.125 and 12.5 are doubles and the product is exact.
  The statement carries 12.5 where rounding would give 13. With a database that takes
  the statement the row holds 12.5; with one that refuses it there is no new row.
\<close>

theorem createInvoice_round_counterexample:
  "map amount (invoices (snd (createInvoice \<lparr>errors = None, message = None\<rparr>
        (invoice_form ''c1'' ''0.125'' ''pending'') world0))) = [Fin (25 / 2)]
   \<and> Math_round (js_mul (Number (Str ''0.125'')) (Fin 100)) = Fin 13
   \<and> invoices (snd (createInvoice \<lparr>errors = None, message = None\<rparr>
        (invoice_form ''c1'' ''0.125'' ''pending'') world_down)) = invoices world_down"
proof -
  let ?fd = "invoice_form ''c1'' ''0.125'' ''pending''"
  have p: "safeParse CreateInvoice (form_fields ?fd) =
     SafeParseSuccess
       [(''customerId'', Str ''c1''), (''amount'', Num (Fin (1 / 8))), (''status'', Str ''pending'')]"
    by (simp add: safeParse_CreateInvoice_success formData_get_invoice_form Number_0_125)
  show ?thesis
    by (simp add: createInvoice_valid [OF p] formData_get_invoice_form Number_0_125 cents_0_125
        world0_def world1_def world_down_def Let_def del: js_mul.simps)
qed

subsection \<open>Deleting an invoice\<close>

text \<open>
  C4. For every id and every world, \<^verbatim>\<open>deleteInvoice\<close> throws the error with the
  message "Failed to Delete Invoice" and leaves the world as it found it: no statement is
  sent to the database (the deletion statement in particular), no path is revalidated,
  and the stored invoices are what they were. This holds whether or not a row has the id.
\<close>

theorem deleteInvoice_always_throws:
  "deleteInvoice i w = (Inl (Error ''Failed to Delete Invoice''), w)
   \<and> executed (snd (deleteInvoice i w)) = executed w
   \<and> revalidated (snd (deleteInvoice i w)) = revalidated w
   \<and> invoices (snd (deleteInvoice i w)) = invoices w"
  by (simp add: deleteInvoice_def and_then_def throw_def)

theorem deleteInvoice_always_throws_witness:
  "deleteInvoice ''a'' world1 = (Inl (Error ''Failed to Delete Invoice''), world1)
   \<and> deleteInvoice ''no-such-id'' world1 = (Inl (Error ''Failed to Delete Invoice''), world1)
   \<and> map invoice_id (invoices (snd (deleteInvoice ''a'' world1))) = [''a'', ''b'']"
  using deleteInvoice_always_throws [of "''a''" world1]
    deleteInvoice_always_throws [of "''no-such-id''" world1]
  by (simp add: world1_def world0_def)

subsection \<open>The authorization decision\<close>

text \<open>
  C5. The four rows of the decision table. A user is authenticated when the request has
  a session with a user. On a path that starts with \<open>/dashboard\<close> the callback answers
  \<open>true\<close> for an authenticated user and \<open>false\<close> otherwise; on any other path it
  answers with a redirect to \<open>/dashboard\<close> (on the origin of the request) for an
  authenticated user and \<open>true\<close> otherwise.
\<close>

theorem authorized_decision_table:
  "(startsWith (pathname nextUrl) ''/dashboard'' \<and> (\<exists>session u. auth = Some session \<and> user session = Some u)
      \<longrightarrow> authorized auth nextUrl = Boolean True)
   \<and> (startsWith (pathname nextUrl) ''/dashboard'' \<and> \<not> (\<exists>session u. auth = Some session \<and> user session = Some u)
      \<longrightarrow> authorized auth nextUrl = Boolean False)
   \<and> (\<not> startsWith (pathname nextUrl) ''/dashboard'' \<and> (\<exists>session u. auth = Some session \<and> user session = Some u)
      \<longrightarrow> authorized auth nextUrl =
            Response_redirect \<lparr>origin = origin nextUrl, pathname = ''/dashboard'', search = []\<rparr>)
   \<and> (\<not> startsWith (pathname nextUrl) ''/dashboard'' \<and> \<not> (\<exists>session u. auth = Some session \<and> user session = Some u)
      \<longrightarrow> authorized auth nextUrl = Boolean True)"
  by (cases auth) (auto simp: authorized_def new_URL_def Let_def)

theorem authorized_decision_table_witness:
  "authorized (Some \<lparr>user = Some ''ana''\<rparr>)
       \<lparr>origin = ''https://app.example'', pathname = ''/dashboard/invoices'', search = []\<rparr>
     = Boolean True
   \<and> authorized (None :: string Session option)
       \<lparr>origin = ''https://app.example'', pathname = ''/dashboard/invoices'', search = []\<rparr>
     = Boolean False
   \<and> authorized (Some \<lparr>user = (None :: string option)\<rparr>)
       \<lparr>origin = ''https://app.example'', pathname = ''/dashboard'', search = []\<rparr>
     = Boolean False
   \<and> authorized (Some \<lparr>user = Some ''ana''\<rparr>)
       \<lparr>origin = ''https://app.example'', pathname = ''/login'', search = ''?next=1''\<rparr>
     = Response_redirect \<lparr>origin = ''https://app.example'', pathname = ''/dashboard'', search = []\<rparr>
   \<and> authorized (None :: string Session option)
       \<lparr>origin = ''https://app.example'', pathname = ''/login'', search = []\<rparr>
     = Boolean True"
  using authorized_decision_table [of
      "\<lparr>origin = ''https://app.example'', pathname = ''/dashboard/invoices'', search = []\<rparr>"
      "Some \<lparr>user = Some ''ana''\<rparr>"]
    authorized_decision_table [of
      "\<lparr>origin = ''https://app.example'', pathname = ''/dashboard/invoices'', search = []\<rparr>"
      "None :: string Session option"]
    authorized_decision_table [of
      "\<lparr>origin = ''https://app.example'', pathname = ''/dashboard'', search = []\<rparr>"
      "Some \<lparr>user = (None :: string option)\<rparr>"]
    authorized_decision_table [of
      "\<lparr>origin = ''https://app.example'', pathname = ''/login'', search = ''?next=1''\<rparr>"
      "Some \<lparr>user = Some ''ana''\<rparr>"]
    authorized_decision_table [of
      "\<lparr>origin = ''https://app.example'', pathname = ''/login'', search = []\<rparr>"
      "None :: string Session option"]
  by (simp add: startsWith_def)

subsection \<open>The credential exchange\<close>

text \<open>
  C6. \<^verbatim>\<open>authenticate\<close> returns "Invalid credentials." when \<^verbatim>\<open>signIn\<close> throws an
  \<^verbatim>\<open>AuthError\<close> of type \<open>CredentialsSignin\<close>, returns "Something went wrong." when it
  throws an \<^verbatim>\<open>AuthError\<close> of any other type, and throws again, unchanged, anything else
  that \<^verbatim>\<open>signIn\<close> throws. When \<^verbatim>\<open>signIn\<close> returns, it returns nothing.
\<close>

theorem authenticate_outcomes:
  "(signIn_outcome w ''credentials'' formData = Some (AuthError ''CredentialsSignin'')
      \<longrightarrow> authenticate prevState formData w = (Inr (Some ''Invalid credentials.''), w))
   \<and> (\<forall>type. signIn_outcome w ''credentials'' formData = Some (AuthError type)
        \<and> type \<noteq> ''CredentialsSignin''
      \<longrightarrow> authenticate prevState formData w = (Inr (Some ''Something went wrong.''), w))
   \<and> (\<forall>e. signIn_outcome w ''credentials'' formData = Some e \<and> (\<forall>type. e \<noteq> AuthError type)
      \<longrightarrow> authenticate prevState formData w = (Inl e, w))
   \<and> (signIn_outcome w ''credentials'' formData = None
      \<longrightarrow> authenticate prevState formData w = (Inr None, w))"
  by (auto simp: authenticate_def try_catch_def and_then_def signIn_def resolve_def throw_def
      split: exn.splits)

theorem authenticate_outcomes_witness:
  "authenticate None [] (world0\<lparr>signIn_outcome :=
       (\<lambda>provider formData. Some (AuthError ''CredentialsSignin''))\<rparr>)
     = (Inr (Some ''Invalid credentials.''),
        world0\<lparr>signIn_outcome := (\<lambda>provider formData. Some (AuthError ''CredentialsSignin''))\<rparr>)
   \<and> authenticate None [] (world0\<lparr>signIn_outcome :=
       (\<lambda>provider formData. Some (AuthError ''CallbackRouteError''))\<rparr>)
     = (Inr (Some ''Something went wrong.''),
        world0\<lparr>signIn_outcome := (\<lambda>provider formData. Some (AuthError ''CallbackRouteError''))\<rparr>)
   \<and> authenticate None [] (world0\<lparr>signIn_outcome := (\<lambda>provider formData. Some PostgresError)\<rparr>)
     = (Inl PostgresError, world0\<lparr>signIn_outcome := (\<lambda>provider formData. Some PostgresError)\<rparr>)
   \<and> authenticate None [] (world0\<lparr>signIn_outcome :=
       (\<lambda>provider formData. Some (NEXT_REDIRECT ''/dashboard''))\<rparr>)
     = (Inl (NEXT_REDIRECT ''/dashboard''),
        world0\<lparr>signIn_outcome := (\<lambda>provider formData. Some (NEXT_REDIRECT ''/dashboard''))\<rparr>)
   \<and> authenticate None [] world0 = (Inr None, world0)"
  using authenticate_outcomes [of "world0\<lparr>signIn_outcome :=
       (\<lambda>provider formData. Some (AuthError ''CredentialsSignin''))\<rparr>" "[]" None]
    authenticate_outcomes [of "world0\<lparr>signIn_outcome :=
       (\<lambda>provider formData. Some (AuthError ''CallbackRouteError''))\<rparr>" "[]" None]
    authenticate_outcomes [of "world0\<lparr>signIn_outcome :=
       (\<lambda>provider formData. Some PostgresError)\<rparr>" "[]" None]
    authenticate_outcomes [of "world0\<lparr>signIn_outcome :=
       (\<lambda>provider formData. Some (NEXT_REDIRECT ''/dashboard''))\<rparr>" "[]" None]
    authenticate_outcomes [of world0 "[]" None]
  by (simp add: world0_def)

subsection \<open>The amount field\<close>

text \<open>
  C7, as the code has it. The amounts \<open>"0"\<close> and \<open>"abc"\<close> both fail validation, for
  different reasons and with different messages. \<open>"0"\<close>, like the empty string, coerces
  to 0 and breaks the strict rule \<open>amount > 0\<close>: the one issue has the code \<open>too_small\<close>
  and the message that the schema gives to its \<^verbatim>\<open>gt\<close> rule. \<open>"abc"\<close> coerces to
  \<open>NaN\<close>, not to 0, and is refused as not a number, before the rule is looked at: the one
  issue has the code \<open>invalid_type\<close> and the message "Expected number, received nan".
\<close>

theorem amount_zero_and_unparseable:
  "(formData_get formData ''amount'' = Str ''0'' \<or> formData_get formData ''amount'' = Str []
      \<longrightarrow> (\<exists>issues. safeParse CreateInvoice (form_fields formData) = SafeParseError issues)
        \<and> map issue_code (field_issues (safeParse CreateInvoice (form_fields formData)) ''amount'')
            = [too_small]
        \<and> (\<forall>m. (''amount'', ZodNumber True [Min (Fin 0) False m]) \<in> set CreateInvoice
              \<longrightarrow> field_messages (safeParse CreateInvoice (form_fields formData)) ''amount'' = [m]))
   \<and> (formData_get formData ''amount'' = Str ''abc''
      \<longrightarrow> (\<exists>issues. safeParse CreateInvoice (form_fields formData) = SafeParseError issues)
        \<and> field_issues (safeParse CreateInvoice (form_fields formData)) ''amount''
            = [ZodIssue invalid_type [''amount''] ''Expected number, received nan''])"
proof (intro conjI impI)
  let ?r = "safeParse CreateInvoice (form_fields formData)"
  assume z: "formData_get formData ''amount'' = Str ''0'' \<or> formData_get formData ''amount'' = Str []"
  then have n: "Number (formData_get formData ''amount'') = Fin 0"
    by (auto simp: Number_0 Number_empty)
  have fi: "field_issues ?r ''amount'' =
      [ZodIssue too_small [''amount''] ''Please enter an amount greater tahn $0.'']"
    by (simp add: amount_issues n)
  show "\<exists>issues. ?r = SafeParseError issues"
    using fi field_issues_nonempty [of ?r "''amount''"] by simp
  show "map issue_code (field_issues ?r ''amount'') = [too_small]"
    by (simp add: fi)
  have fm: "field_messages ?r ''amount'' = [''Please enter an amount greater tahn $0.'']"
    by (simp add: field_messages_issues fi)
  have mem: "m = ''Please enter an amount greater tahn $0.''"
    if "(''amount'', ZodNumber True [Min (Fin 0) False m]) \<in> set CreateInvoice" for m
    using that by (simp add: CreateInvoice_shape)
  show "\<forall>m. (''amount'', ZodNumber True [Min (Fin 0) False m]) \<in> set CreateInvoice
          \<longrightarrow> field_messages ?r ''amount'' = [m]"
    using fm mem by auto
next
  let ?r = "safeParse CreateInvoice (form_fields formData)"
  assume "formData_get formData ''amount'' = Str ''abc''"
  then have n: "Number (formData_get formData ''amount'') = NaN"
    by (simp add: Number_abc)
  show fi: "field_issues ?r ''amount'' =
      [ZodIssue invalid_type [''amount''] ''Expected number, received nan'']"
    by (simp add: amount_issues n)
  show "\<exists>issues. ?r = SafeParseError issues"
    using fi field_issues_nonempty [of ?r "''amount''"] by simp
qed

theorem amount_zero_and_unparseable_witness:
  "formData_get (invoice_form ''c1'' ''0'' ''pending'') ''amount'' = Str ''0''
   \<and> (''amount'', ZodNumber True [Min (Fin 0) False ''Please enter an amount greater tahn $0.''])
       \<in> set CreateInvoice
   \<and> map issue_code
        (field_issues (safeParse CreateInvoice (form_fields (invoice_form ''c1'' ''0'' ''pending'')))
           ''amount'') = [too_small]
   \<and> field_messages (safeParse CreateInvoice (form_fields (invoice_form ''c1'' ''0'' ''pending'')))
        ''amount'' = [''Please enter an amount greater tahn $0.'']
   \<and> formData_get (invoice_form ''c1'' ''abc'' ''pending'') ''amount'' = Str ''abc''
   \<and> field_issues (safeParse CreateInvoice (form_fields (invoice_form ''c1'' ''abc'' ''pending'')))
        ''amount'' = [ZodIssue invalid_type [''amount''] ''Expected number, received nan'']"
proof -
  have mem: "(''amount'', ZodNumber True [Min (Fin 0) False ''Please enter an amount greater tahn $0.''])
       \<in> set CreateInvoice"
    by (simp add: CreateInvoice_shape)
  show ?thesis
    using amount_zero_and_unparseable [of "invoice_form ''c1'' ''0'' ''pending''"]
      amount_zero_and_unparseable [of "invoice_form ''c1'' ''abc'' ''pending''"] mem
    by (simp add: formData_get_invoice_form)
qed

text \<open>The two inputs do not get the same message, and \<open>"abc"\<close> does not get the amount rule's.\<close>

theorem amount_same_message_counterexample:
  "field_messages (safeParse CreateInvoice (form_fields (invoice_form ''c1'' ''0'' ''pending'')))
       ''amount''
     \<noteq> field_messages (safeParse CreateInvoice (form_fields (invoice_form ''c1'' ''abc'' ''pending'')))
       ''amount''
   \<and> field_messages (safeParse CreateInvoice (form_fields (invoice_form ''c1'' ''abc'' ''pending'')))
       ''amount'' = [''Expected number, received nan'']
   \<and> spec_amount_message \<notin> set (field_messages
         (safeParse CreateInvoice (form_fields (invoice_form ''c1'' ''abc'' ''pending''))) ''amount'')"
  by (simp add: field_messages_issues amount_issues formData_get_invoice_form Number_0 Number_abc
      spec_amount_message_def)

subsection \<open>Updating an invoice\<close>

text \<open>
  C8. For every id and every form that passes validation, \<^verbatim>\<open>updateInvoice\<close> leaves
  the \<open>id\<close> and \<open>date\<close> columns of every stored row as they were, leaves every row with
  another id untouched, and sends the database one statement, the \<^verbatim>\<open>UPDATE\<close> that sets
  \<open>customer_id\<close>, \<open>amount\<close> and \<open>status\<close> where the id matches.
\<close>

theorem updateInvoice_frame:
  assumes valid: "safeParse UpdateInvoice (form_fields formData) = SafeParseSuccess data"
  shows "map invoice_id (invoices (snd (updateInvoice i prevState formData w))) =
           map invoice_id (invoices w)
      \<and> map date (invoices (snd (updateInvoice i prevState formData w))) = map date (invoices w)
      \<and> filter (\<lambda>row. invoice_id row \<noteq> i) (invoices (snd (updateInvoice i prevState formData w)))
          = filter (\<lambda>row. invoice_id row \<noteq> i) (invoices w)
      \<and> executed (snd (updateInvoice i prevState formData w)) =
          executed w @ [UPDATE_invoices (formData_get formData ''customerId'')
            (js_mul (Number (formData_get formData ''amount'')) (Fin 100))
            (formData_get formData ''status'') i]"
proof -
  have f: "filter (\<lambda>row. invoice_id row \<noteq> i)
        (map (\<lambda>row. if invoice_id row = i then row\<lparr>customer_id := c, amount := a, status := s\<rparr>
                     else row) rows) =
      filter (\<lambda>row. invoice_id row \<noteq> i) rows" for c a s rows
    by (induction rows) auto
  show ?thesis
    by (simp add: updateInvoice_valid [OF valid] Let_def comp_def f if_distrib [of invoice_id]
        if_distrib [of date] del: js_mul.simps cong: if_cong)
qed

theorem updateInvoice_frame_witness:
  "safeParse UpdateInvoice (form_fields (invoice_form ''c9'' ''25.50'' ''paid'')) =
     SafeParseSuccess
       [(''customerId'', Str ''c9''), (''amount'', Num (Fin (51 / 2))), (''status'', Str ''paid'')]
   \<and> map invoice_id (invoices (snd (updateInvoice ''b'' \<lparr>errors = None, message = None\<rparr>
        (invoice_form ''c9'' ''25.50'' ''paid'') world1))) = [''a'', ''b'']
   \<and> map date (invoices (snd (updateInvoice ''b'' \<lparr>errors = None, message = None\<rparr>
        (invoice_form ''c9'' ''25.50'' ''paid'') world1))) = [''2024-01-02'', ''2024-03-04'']
   \<and> map amount (invoices (snd (updateInvoice ''b'' \<lparr>errors = None, message = None\<rparr>
        (invoice_form ''c9'' ''25.50'' ''paid'') world1))) = [Fin 1000, Fin 2550]"
proof -
  let ?fd = "invoice_form ''c9'' ''25.50'' ''paid''"
  have "safeParse CreateInvoice (form_fields ?fd) =
     SafeParseSuccess
       [(''customerId'', Str ''c9''), (''amount'', Num (Fin (51 / 2))), (''status'', Str ''paid'')]"
    by (simp add: safeParse_CreateInvoice_success formData_get_invoice_form Number_25_50)
  then have p: "safeParse UpdateInvoice (form_fields ?fd) =
     SafeParseSuccess
       [(''customerId'', Str ''c9''), (''amount'', Num (Fin (51 / 2))), (''status'', Str ''paid'')]"
    by (simp add: CreateInvoice_def UpdateInvoice_def)
  have a: "map amount (invoices (snd (updateInvoice ''b'' \<lparr>errors = None, message = None\<rparr>
        ?fd world1))) = [Fin 1000, Fin 2550]"
    by (simp add: updateInvoice_valid [OF p] formData_get_invoice_form Number_25_50 cents_25_50
        world1_def world0_def Let_def del: js_mul.simps)
  have ids: "map invoice_id (invoices world1) = [''a'', ''b'']"
    by (simp add: world1_def world0_def)
  have dates: "map date (invoices world1) = [''2024-01-02'', ''2024-03-04'']"
    by (simp add: world1_def world0_def)
  show ?thesis
    using updateInvoice_frame [OF p, of "''b''" "\<lparr>errors = None, message = None\<rparr>" world1]
    by (simp add: p a ids dates)
qed

subsection \<open>The status field\<close>

text \<open>
  C9, as the code has it. A status that is exactly \<open>pending\<close> or \<open>paid\<close> gets no
  message. Any other value fails validation. The message is "Please select an invoice
  status" when the value is not a string (the field is missing, or a file); when it is
  a string other than the two, the message is Zod's own for a value outside an
  enumeration, which names the two options and the value received.
\<close>

theorem status_rule:
  "(formData_get formData ''status'' = Str ''pending'' \<or> formData_get formData ''status'' = Str ''paid''
      \<longrightarrow> field_messages (safeParse CreateInvoice (form_fields formData)) ''status'' = [])
   \<and> ((\<forall>s. formData_get formData ''status'' \<noteq> Str s)
      \<longrightarrow> (\<exists>issues. safeParse CreateInvoice (form_fields formData) = SafeParseError issues)
        \<and> field_messages (safeParse CreateInvoice (form_fields formData)) ''status''
            = [''Please select an invoice status''])
   \<and> (\<forall>s. formData_get formData ''status'' = Str s \<and> s \<noteq> ''pending'' \<and> s \<noteq> ''paid''
      \<longrightarrow> (\<exists>issues. safeParse CreateInvoice (form_fields formData) = SafeParseError issues)
        \<and> field_messages (safeParse CreateInvoice (form_fields formData)) ''status''
            = [invalid_enum_value_default [''pending'', ''paid''] s])"
proof (intro conjI impI allI)
  let ?r = "safeParse CreateInvoice (form_fields formData)"
  assume "formData_get formData ''status'' = Str ''pending'' \<or> formData_get formData ''status'' = Str ''paid''"
  then show "field_messages ?r ''status'' = []"
    by (auto simp: field_messages_issues status_issues)
next
  let ?r = "safeParse CreateInvoice (form_fields formData)"
  assume "\<forall>s. formData_get formData ''status'' \<noteq> Str s"
  then have fi: "field_issues ?r ''status'' =
      [ZodIssue invalid_type [''status''] ''Please select an invoice status'']"
    using formData_get_cases [of formData "''status''"] by (auto simp: status_issues)
  show "\<exists>issues. ?r = SafeParseError issues"
    using fi field_issues_nonempty [of ?r "''status''"] by simp
  show "field_messages ?r ''status'' = [''Please select an invoice status'']"
    by (simp add: field_messages_issues fi)
next
  fix s
  let ?r = "safeParse CreateInvoice (form_fields formData)"
  assume "formData_get formData ''status'' = Str s \<and> s \<noteq> ''pending'' \<and> s \<noteq> ''paid''"
  then have fi: "field_issues ?r ''status'' =
      [ZodIssue invalid_enum_value [''status''] (invalid_enum_value_default [''pending'', ''paid''] s)]"
    by (simp add: status_issues)
  show "\<exists>issues. ?r = SafeParseError issues"
    using fi field_issues_nonempty [of ?r "''status''"] by simp
  show "field_messages ?r ''status'' = [invalid_enum_value_default [''pending'', ''paid''] s]"
    by (simp add: field_messages_issues fi)
qed

theorem status_rule_witness:
  "field_messages (safeParse CreateInvoice (form_fields (invoice_form ''c1'' ''50'' ''paid'')))
       ''status'' = []
   \<and> (\<forall>s. formData_get [(''customerId'', EntryString ''c1''), (''amount'', EntryString ''50'')]
         ''status'' \<noteq> Str s)
   \<and> field_messages (safeParse CreateInvoice (form_fields
         [(''customerId'', EntryString ''c1''), (''amount'', EntryString ''50'')])) ''status''
       = [''Please select an invoice status'']
   \<and> field_messages (safeParse CreateInvoice (form_fields (invoice_form ''c1'' ''50'' ''Paid'')))
       ''status'' = [invalid_enum_value_default [''pending'', ''paid''] ''Paid'']"
proof -
  have n: "\<forall>s. formData_get [(''customerId'', EntryString ''c1''), (''amount'', EntryString ''50'')]
         ''status'' \<noteq> Str s"
    by (simp add: formData_get_def)
  show ?thesis
    using status_rule [of "invoice_form ''c1'' ''50'' ''paid''"]
      status_rule [of "[(''customerId'', EntryString ''c1''), (''amount'', EntryString ''50'')]"]
      status_rule [of "invoice_form ''c1'' ''50'' ''Paid''"] n
    by (simp add: formData_get_invoice_form)
qed

text \<open>The status \<open>"foo"\<close> is refused with the enumeration message, not the friendly one.\<close>

theorem status_message_counterexample:
  "field_messages (safeParse CreateInvoice (form_fields (invoice_form ''c1'' ''50'' ''foo'')))
       ''status''
     = [''Invalid enum value. Expected '' @ [CHR 0x27] @ ''pending'' @ [CHR 0x27] @ '' | ''
       @ [CHR 0x27] @ ''paid'' @ [CHR 0x27] @ '', received '' @ [CHR 0x27] @ ''foo'' @ [CHR 0x27]]
   \<and> ''Please select an invoice status'' \<notin> set (field_messages
         (safeParse CreateInvoice (form_fields (invoice_form ''c1'' ''50'' ''foo''))) ''status'')"
  by (simp add: field_messages_issues status_issues formData_get_invoice_form
      invalid_enum_value_default_foo)

subsection \<open>One schema for both forms\<close>

text \<open>
  C10. \<^verbatim>\<open>CreateInvoice\<close> and \<^verbatim>\<open>UpdateInvoice\<close> are the same schema, the base schema
  without \<open>id\<close> and \<open>date\<close>, and the two actions apply it to the same object built from
  the form. So for every form the validation outcome of \<^verbatim>\<open>createInvoice\<close> and of
  \<^verbatim>\<open>updateInvoice\<close> is the same. When validation fails, both return, in an unchanged
  world, the same field-error map (each with its own message). When it succeeds, both
  go on to the database with the same normalized fields: the one statement each sends
  carries the same customer, the same amount times 100 and the same status. An action
  returns a field-error map exactly when the other does, and the same one; and an action
  sends no statement exactly when the other sends none.
\<close>

theorem create_update_same_validation:
  "CreateInvoice = UpdateInvoice
   \<and> CreateInvoice = omit [''id'', ''date''] formSchema
   \<and> safeParse CreateInvoice raw = safeParse UpdateInvoice raw
   \<and> (\<forall>issues. safeParse CreateInvoice (form_fields formData) = SafeParseError issues \<longrightarrow>
        createInvoice prevState formData w =
          (Inr \<lparr>errors = Some (flatten_fieldErrors issues),
                message = Some ''Missing Fields. Failed to Create Invoice.''\<rparr>, w)
        \<and> updateInvoice i prevState formData w =
          (Inr \<lparr>errors = Some (flatten_fieldErrors issues),
                message = Some ''Missing Fields. Failed to Update Invoice.''\<rparr>, w))
   \<and> (\<forall>data. safeParse CreateInvoice (form_fields formData) = SafeParseSuccess data \<longrightarrow>
        executed (snd (createInvoice prevState formData w)) =
          executed w @ [INSERT_INTO_invoices (obj_get data ''customerId'')
            (js_mul (Number (obj_get data ''amount'')) (Fin 100)) (obj_get data ''status'')
            (split_first CHR ''T'' (now_toISOString w))]
        \<and> executed (snd (updateInvoice i prevState formData w)) =
          executed w @ [UPDATE_invoices (obj_get data ''customerId'')
            (js_mul (Number (obj_get data ''amount'')) (Fin 100)) (obj_get data ''status'') i])
   \<and> (\<forall>e. (\<exists>st. createInvoice prevState formData w = (Inr st, w) \<and> errors st = Some e)
          = (\<exists>st. updateInvoice i prevState formData w = (Inr st, w) \<and> errors st = Some e))
   \<and> (executed (snd (createInvoice prevState formData w)) = executed w)
       = (executed (snd (updateInvoice i prevState formData w)) = executed w)"
proof -
  have same: "CreateInvoice = UpdateInvoice"
    by (simp add: CreateInvoice_def UpdateInvoice_def)
  let ?r = "safeParse CreateInvoice (form_fields formData)"
  have inv: "createInvoice prevState formData w =
          (Inr \<lparr>errors = Some (flatten_fieldErrors issues),
                message = Some ''Missing Fields. Failed to Create Invoice.''\<rparr>, w)
        \<and> updateInvoice i prevState formData w =
          (Inr \<lparr>errors = Some (flatten_fieldErrors issues),
                message = Some ''Missing Fields. Failed to Update Invoice.''\<rparr>, w)"
    if "?r = SafeParseError issues" for issues
    using that createInvoice_invalid [of formData issues prevState w]
      updateInvoice_invalid [of formData issues i prevState w]
    by (simp add: same)
  have val: "executed (snd (createInvoice prevState formData w)) =
          executed w @ [INSERT_INTO_invoices (obj_get data ''customerId'')
            (js_mul (Number (obj_get data ''amount'')) (Fin 100)) (obj_get data ''status'')
            (split_first CHR ''T'' (now_toISOString w))]
        \<and> executed (snd (updateInvoice i prevState formData w)) =
          executed w @ [UPDATE_invoices (obj_get data ''customerId'')
            (js_mul (Number (obj_get data ''amount'')) (Fin 100)) (obj_get data ''status'') i]"
    if v: "?r = SafeParseSuccess data" for data
  proof -
    have d: "data = [(''customerId'', formData_get formData ''customerId''),
                 (''amount'', Num (Number (formData_get formData ''amount''))),
                 (''status'', formData_get formData ''status'')]"
      using v by (simp add: safeParse_CreateInvoice_success)
    have u: "safeParse UpdateInvoice (form_fields formData) = SafeParseSuccess data"
      using v by (simp add: same)
    show ?thesis
      by (simp add: createInvoice_valid [OF v] updateInvoice_valid [OF u] d obj_get_def
          Number_def Let_def del: js_mul.simps)
  qed
  have iff: "(\<exists>st. createInvoice prevState formData w = (Inr st, w) \<and> errors st = Some e)
          = (\<exists>st. updateInvoice i prevState formData w = (Inr st, w) \<and> errors st = Some e)" for e
  proof (cases ?r)
    case (SafeParseError issues)
    then show ?thesis using inv [OF SafeParseError] by auto
  next
    case (SafeParseSuccess data)
    then have u: "safeParse UpdateInvoice (form_fields formData) = SafeParseSuccess data"
      by (simp add: same)
    show ?thesis
      by (auto simp: createInvoice_valid [OF SafeParseSuccess] updateInvoice_valid [OF u]
          Let_def simp del: js_mul.simps)
  qed
  have ex: "(executed (snd (createInvoice prevState formData w)) = executed w)
       = (executed (snd (updateInvoice i prevState formData w)) = executed w)"
  proof (cases ?r)
    case (SafeParseError issues)
    then show ?thesis using inv [OF SafeParseError] by simp
  next
    case (SafeParseSuccess data)
    then show ?thesis using val [OF SafeParseSuccess] by simp
  qed
  have om: "CreateInvoice = omit [''id'', ''date''] formSchema"
    by (simp add: CreateInvoice_def)
  have sp: "safeParse CreateInvoice raw = safeParse UpdateInvoice raw"
    by (simp add: same)
  show ?thesis using same om sp inv val iff ex by blast
qed

theorem create_update_same_validation_witness:
  "createInvoice \<lparr>errors = None, message = None\<rparr> [] world1 =
       (Inr \<lparr>errors = Some [(''customerId'', [''Please select a customer'']),
                           (''amount'', [''Please enter an amount greater tahn $0.'']),
                           (''status'', [''Please select an invoice status''])],
             message = Some ''Missing Fields. Failed to Create Invoice.''\<rparr>, world1)
   \<and> updateInvoice ''b'' \<lparr>errors = None, message = None\<rparr> [] world1 =
       (Inr \<lparr>errors = Some [(''customerId'', [''Please select a customer'']),
                           (''amount'', [''Please enter an amount greater tahn $0.'']),
                           (''status'', [''Please select an invoice status''])],
             message = Some ''Missing Fields. Failed to Update Invoice.''\<rparr>, world1)
   \<and> executed (snd (createInvoice \<lparr>errors = None, message = None\<rparr>
        (invoice_form ''c1'' ''25.50'' ''pending'') world1)) =
       [INSERT_INTO_invoices (Str ''c1'') (Fin 2550) (Str ''pending'') ''2024-05-06'']
   \<and> executed (snd (updateInvoice ''b'' \<lparr>errors = None, message = None\<rparr>
        (invoice_form ''c1'' ''25.50'' ''pending'') world1)) =
       [UPDATE_invoices (Str ''c1'') (Fin 2550) (Str ''pending'') ''b'']"
proof -
  let ?fd = "invoice_form ''c1'' ''25.50'' ''pending''"
  have h: "safeParse CreateInvoice (form_fields []) =
     SafeParseError
       [ZodIssue invalid_type [''customerId''] ''Please select a customer'',
        ZodIssue too_small [''amount''] ''Please enter an amount greater tahn $0.'',
        ZodIssue invalid_type [''status''] ''Please select an invoice status'']"
    by code_simp
  have f: "flatten_fieldErrors
       [ZodIssue invalid_type [''customerId''] ''Please select a customer'',
        ZodIssue too_small [''amount''] ''Please enter an amount greater tahn $0.'',
        ZodIssue invalid_type [''status''] ''Please select an invoice status''] =
      [(''customerId'', [''Please select a customer'']),
       (''amount'', [''Please enter an amount greater tahn $0.'']),
       (''status'', [''Please select an invoice status''])]"
    by code_simp
  have p: "safeParse CreateInvoice (form_fields ?fd) =
     SafeParseSuccess
       [(''customerId'', Str ''c1''), (''amount'', Num (Fin (51 / 2))), (''status'', Str ''pending'')]"
    by (simp add: safeParse_CreateInvoice_success formData_get_invoice_form Number_25_50)
  have ex: "executed world1 = []" by (simp add: world1_def world0_def)
  have clk: "split_first CHR ''T'' (now_toISOString world1) = ''2024-05-06''"
    by (simp add: world1_def world0_def split_first_def)
  note inv = create_update_same_validation [where formData = "[]"
      and prevState = "\<lparr>errors = None, message = None\<rparr>" and w = world1 and i = "''b''",
      THEN conjunct2, THEN conjunct2, THEN conjunct2, THEN conjunct1, rule_format, OF h]
  note val = create_update_same_validation [where formData = ?fd
      and prevState = "\<lparr>errors = None, message = None\<rparr>" and w = world1 and i = "''b''",
      THEN conjunct2, THEN conjunct2, THEN conjunct2, THEN conjunct2, THEN conjunct1,
      rule_format, OF p]
  show ?thesis
    using inv val
    by (simp add: f ex clk obj_get_def Number_def cents_25_50 del: js_mul.simps)
qed

end
